theory Spec2Isabelle
  imports Complex_Main
begin

section \<open>JavaScript values and helpers\<close>

text \<open>
  A thrown value is an \<open>Error\<close> object with a name and a message. Strings are lists of
  bytes, the UTF-8 encoding of the program's strings. \<open>error_text\<close> is the expression
  \<^verbatim>\<open>(err as Error)?.message || String(err)\<close>: an empty message is falsy, and
  \<open>String\<close> of an error with an empty message is its name.
\<close>

datatype js_error = JsError (err_name: string) (err_message: string)

definition Error :: "string \<Rightarrow> js_error" where
  "Error m = JsError ''Error'' m"

definition TypeError :: "string \<Rightarrow> js_error" where
  "TypeError m = JsError ''TypeError'' m"

definition error_text :: "js_error \<Rightarrow> string" where
  "error_text e = (if err_message e \<noteq> [] then err_message e else err_name e)"

fun starts_with :: "string \<Rightarrow> string \<Rightarrow> bool" where
  "starts_with [] s = True"
| "starts_with (p # ps) [] = False"
| "starts_with (p # ps) (c # cs) = (p = c \<and> starts_with ps cs)"

text \<open>
  The white space of \<^verbatim>\<open>\s\<close> and \<^verbatim>\<open>trim\<close>, each character as its bytes: tab, line feed,
  vertical tab, form feed, carriage return, space, U+00A0, U+1680, U+2000 to U+200A, U+2028,
  U+2029, U+202F, U+205F, U+3000 and U+FEFF. The line terminators, which \<^verbatim>\<open>.\<close> does
  not match, are line feed, carriage return, U+2028 and U+2029.
\<close>

definition white_space :: "string list" where
  "white_space =
     [[CHR 0x09], [CHR 0x0A], [CHR 0x0B], [CHR 0x0C], [CHR 0x0D], [CHR 0x20],
      [CHR 0xC2, CHR 0xA0], [CHR 0xE1, CHR 0x9A, CHR 0x80],
      [CHR 0xE2, CHR 0x80, CHR 0x80], [CHR 0xE2, CHR 0x80, CHR 0x81],
      [CHR 0xE2, CHR 0x80, CHR 0x82], [CHR 0xE2, CHR 0x80, CHR 0x83],
      [CHR 0xE2, CHR 0x80, CHR 0x84], [CHR 0xE2, CHR 0x80, CHR 0x85],
      [CHR 0xE2, CHR 0x80, CHR 0x86], [CHR 0xE2, CHR 0x80, CHR 0x87],
      [CHR 0xE2, CHR 0x80, CHR 0x88], [CHR 0xE2, CHR 0x80, CHR 0x89],
      [CHR 0xE2, CHR 0x80, CHR 0x8A], [CHR 0xE2, CHR 0x80, CHR 0xA8],
      [CHR 0xE2, CHR 0x80, CHR 0xA9], [CHR 0xE2, CHR 0x80, CHR 0xAF],
      [CHR 0xE2, CHR 0x81, CHR 0x9F], [CHR 0xE3, CHR 0x80, CHR 0x80],
      [CHR 0xEF, CHR 0xBB, CHR 0xBF]]"

definition line_terminators :: "string list" where
  "line_terminators =
     [[CHR 0x0A], [CHR 0x0D], [CHR 0xE2, CHR 0x80, CHR 0xA8], [CHR 0xE2, CHR 0x80, CHR 0xA9]]"

lemma starts_with_length: "starts_with q s \<Longrightarrow> length q \<le> length s"
  by (induction q s rule: starts_with.induct) auto

text \<open>\<open>drop_seqs qs s\<close> removes from the front of \<open>s\<close> every leading occurrence of one of \<open>qs\<close>.\<close>

function drop_seqs :: "string list \<Rightarrow> string \<Rightarrow> string" where
  "drop_seqs qs s =
     (case find (\<lambda>q. q \<noteq> [] \<and> starts_with q s) qs of
        None \<Rightarrow> s
      | Some q \<Rightarrow> drop_seqs qs (drop (length q) s))"
  by pat_completeness auto
termination
proof (relation "measure (\<lambda>(qs, s). length s)")
  show "wf (measure (\<lambda>(qs, s). length s))" by simp
next
  fix qs s q
  assume "find (\<lambda>q. q \<noteq> [] \<and> starts_with q s) qs = Some q"
  then have "q \<noteq> []" "starts_with q s" by (auto simp: find_Some_iff)
  then have "0 < length q" "length q \<le> length s" using starts_with_length by auto
  then show "((qs, drop (length q) s), (qs, s)) \<in> measure (\<lambda>(qs, s). length s)"
    by (cases q; cases s) auto
qed

declare drop_seqs.simps [simp del]

definition js_trim :: "string \<Rightarrow> string" where
  "js_trim s = rev (drop_seqs (map rev white_space) (rev (drop_seqs white_space s)))"

text \<open>The part of a string before its first line terminator.\<close>

fun line_of :: "string \<Rightarrow> string" where
  "line_of [] = []"
| "line_of (c # cs) =
     (if list_ex (\<lambda>q. starts_with q (c # cs)) line_terminators then [] else c # line_of cs)"

text \<open>
  \<open>greedy_capture suffix r\<close>: the group of \<^verbatim>\<open>(.*)suffix\<close> matched at the start of \<open>r\<close>,
  the longest run of characters of the first line that is followed by \<open>suffix\<close>.
\<close>

definition greedy_capture :: "string \<Rightarrow> string \<Rightarrow> string option" where
  "greedy_capture suffix r =
     (let line = line_of r;
          ks = filter (\<lambda>k. starts_with suffix (drop k r)) (rev [0..<Suc (length line)])
      in case ks of [] \<Rightarrow> None | k # _ \<Rightarrow> Some (take k r))"

text \<open>\<^verbatim>\<open>s.match(/data:(.*);base64,/)?.[1]\<close>: the leftmost match, its first group.\<close>

fun match_data_mime :: "string \<Rightarrow> string option" where
  "match_data_mime [] = None"
| "match_data_mime (c # cs) =
     (if starts_with ''data:'' (c # cs)
      then (case greedy_capture '';base64,'' (drop 5 (c # cs)) of
              Some g \<Rightarrow> Some g
            | None \<Rightarrow> match_data_mime cs)
      else match_data_mime cs)"

section \<open>Model content: parts, function calls, tool results\<close>

type_synonym shape_id = string

record fn_args =
  arg_prompt :: "string option"
  arg_numberOfImages :: "rat option"
  arg_aspectRatio :: "string option"
  arg_variationStrength :: "rat option"
  arg_stylePreset :: "string option"
  arg_negativePrompt :: "string option"
  arg_seed :: "rat option"
  arg_baseShapeId :: "shape_id option"
  arg_overlayShapeId :: "shape_id option"
  arg_factor :: "rat option"
  arg_steps :: "string list option"

record fn_call =
  fn_name :: string
  fn_args :: fn_args

datatype tool_result = ToolOutput string | ToolError string

datatype part =
    Text string
  | InlineData string string
  | FunctionCall fn_call
  | FunctionResponse string tool_result

record content =
  role :: string
  parts :: "part list"

section \<open>generateImages\<close>

definition GEMINI_IMAGE_MODEL_NAME :: string where
  "GEMINI_IMAGE_MODEL_NAME = ''gemini-2.5-flash-image-preview''"

type_synonym blob = string

record gen_request =
  req_model :: string
  req_parts :: "part list"
  req_responseModalities :: "string list"

text \<open>
  A response of \<^verbatim>\<open>ai.models.generateContent\<close>: its candidates, each with the parts of its
  content when it has any. The image model and \<^verbatim>\<open>bloblToBase64\<close> (of the absent
  \<^verbatim>\<open>utils\<close> module) are parameters; the model answers from the list of all requests
  made so far, the last one being the current request.
\<close>

record gen_response =
  candidates :: "part list option list"

record utils_env =
  bloblToBase64 :: "blob \<Rightarrow> string"

record image_env = utils_env +
  generateContent :: "gen_request list \<Rightarrow> js_error + gen_response"

fun inline_of :: "part list \<Rightarrow> (string \<times> string) option" where
  "inline_of [] = None"
| "inline_of (InlineData m d # ps) = Some (m, d)"
| "inline_of (p # ps) = inline_of ps"

text \<open>\<^verbatim>\<open>res.candidates?.[0]?.content?.parts?.find((p) => p.inlineData)?.inlineData\<close>\<close>

definition first_inline :: "gen_response \<Rightarrow> (string \<times> string) option" where
  "first_inline res =
     (case candidates res of
        [] \<Rightarrow> None
      | None # _ \<Rightarrow> None
      | Some ps # _ \<Rightarrow> inline_of ps)"

definition data_url :: "string \<Rightarrow> string \<Rightarrow> string" where
  "data_url m d = ''data:'' @ m @ '';base64,'' @ d"

definition image_part :: "image_env \<Rightarrow> blob option \<Rightarrow> part option" where
  "image_part env imageBlob =
     (let baseImageBase64 = (case imageBlob of None \<Rightarrow> None | Some b \<Rightarrow> Some (bloblToBase64 env b));
          mimeType = (case baseImageBase64 of
                        None \<Rightarrow> ''image/png''
                      | Some s \<Rightarrow> (case match_data_mime s of
                                    None \<Rightarrow> ''image/png''
                                  | Some g \<Rightarrow> if g = [] then ''image/png'' else g))
      in case baseImageBase64 of
           None \<Rightarrow> None
         | Some s \<Rightarrow> if s = [] then None else Some (InlineData mimeType s))"

definition image_request :: "part option \<Rightarrow> string \<Rightarrow> gen_request" where
  "image_request imagePart txt =
     \<lparr>req_model = GEMINI_IMAGE_MODEL_NAME,
      req_parts = (case imagePart of None \<Rightarrow> [Text txt] | Some ip \<Rightarrow> [ip, Text txt]),
      req_responseModalities = [''IMAGE'', ''TEXT'']\<rparr>"

text \<open>
  One round of the \<^verbatim>\<open>for (let i = 0; i < numberOfImages; i++)\<close> loop: \<open>k\<close> requests left,
  the requests made so far, the images collected so far. A request that throws ends the
  whole call.
\<close>

fun attempt_round ::
  "image_env \<Rightarrow> gen_request \<Rightarrow> nat \<Rightarrow> gen_request list \<Rightarrow> string list
     \<Rightarrow> (js_error + string list) \<times> gen_request list" where
  "attempt_round env req 0 reqs imageObjects = (Inr imageObjects, reqs)"
| "attempt_round env req (Suc k) reqs imageObjects =
     (case generateContent env (reqs @ [req]) of
        Inl e \<Rightarrow> (Inl e, reqs @ [req])
      | Inr res \<Rightarrow>
          attempt_round env req k (reqs @ [req])
            (case first_inline res of
               None \<Rightarrow> imageObjects
             | Some (m, d) \<Rightarrow> imageObjects @ [data_url m d]))"

definition diversity_instructions :: string where
  "diversity_instructions =
     ''Change camera angle and lighting, vary background and composition; avoid reproducing the exact scene.''"

definition retryPrompt :: "string \<Rightarrow> string" where
  "retryPrompt prompt = js_trim (prompt @ [CHR 0x0A] @ diversity_instructions)"

text \<open>The number of iterations of \<^verbatim>\<open>for (let i = 0; i < n; i++)\<close> for a number \<open>n\<close>.\<close>

definition loop_count :: "rat \<Rightarrow> nat" where
  "loop_count n = nat \<lceil>n\<rceil>"

definition generateImages ::
  "image_env \<Rightarrow> string \<Rightarrow> blob option \<Rightarrow> rat \<Rightarrow> string \<Rightarrow> gen_request list
     \<Rightarrow> (js_error + string list) \<times> gen_request list" where
  "generateImages env prompt imageBlob numberOfImages aspectRatio reqs =
     (let imagePart = image_part env imageBlob in
      case attempt_round env (image_request imagePart prompt) (loop_count numberOfImages) reqs [] of
        (Inl e, reqs1) \<Rightarrow> (Inl e, reqs1)
      | (Inr imageObjects, reqs1) \<Rightarrow>
          if length imageObjects = 0 then
            (case attempt_round env (image_request imagePart (retryPrompt prompt))
                    (loop_count numberOfImages) reqs1 imageObjects of
               (Inl e, reqs2) \<Rightarrow> (Inl e, reqs2)
             | (Inr imageObjects2, reqs2) \<Rightarrow>
                 if length imageObjects2 = 0
                 then (Inl (Error ''Gemini did not return images''), reqs2)
                 else (Inr imageObjects2, reqs2))
          else (Inr imageObjects, reqs1))"

subsection \<open>The requests of a round\<close>












text \<open>
  Claim C10. Two calls of \<open>generateImages\<close> that differ only in the \<open>aspectRatio\<close> argument
  send the same requests to the image model and return the same result: the argument is
  accepted and never read.
\<close>

theorem generateImages_ignores_aspectRatio:
  "generateImages env prompt imageBlob numberOfImages aspectRatio reqs =
   generateImages env prompt imageBlob numberOfImages aspectRatio' reqs"
  by (simp add: generateImages_def)

section \<open>generateVideo\<close>

definition VEO_MODEL_NAME :: string where
  "VEO_MODEL_NAME = ''veo-3.0-generate-001''"

record veo_request =
  vreq_model :: string
  vreq_prompt :: string
  vreq_image :: "(string \<times> string) option"
  vreq_numberOfVideos :: rat
  vreq_aspectRatio :: string

text \<open>
  The Veo operation as the code reads it: \<^verbatim>\<open>done\<close>, and a response with the count and the
  reasons of filtered media and the generated videos, each with the \<^verbatim>\<open>uri\<close> of its
  \<^verbatim>\<open>video\<close> when it has one.
\<close>

record veo_response =
  raiMediaFilteredCount :: "nat option"
  raiMediaFilteredReasons :: "string list option"
  generatedVideos :: "string option list option"

record veo_operation =
  op_done :: bool
  op_response :: "veo_response option"

record fal_request =
  fal_endpoint :: string
  fal_prompt :: string
  fal_aspect_ratio :: string
  fal_image_url :: "string option"

text \<open>
  What \<^verbatim>\<open>fal.subscribe\<close> resolves to: the videos and the single video are looked up at the
  top level, under \<^verbatim>\<open>data\<close> and under \<^verbatim>\<open>output\<close>; every video may lack its \<^verbatim>\<open>url\<close>.
\<close>

record fal_payload =
  p_videos :: "string option list option"
  p_video :: "string option option"

record fal_result =
  res_top :: fal_payload
  res_data :: "fal_payload option"
  res_output :: "fal_payload option"

text \<open>
  The services \<open>generateVideo\<close> calls are parameters: the Veo submission, the \<open>k\<close>-th poll of
  an operation, \<^verbatim>\<open>decodeURIComponent\<close>, \<^verbatim>\<open>fetch\<close> followed by \<^verbatim>\<open>blob()\<close>, the FAL endpoint,
  and the two keys of \<^verbatim>\<open>process.env\<close>.
\<close>

record video_env = utils_env +
  generateVideos :: "veo_request \<Rightarrow> js_error + veo_operation"
  getVideosOperation :: "veo_operation \<Rightarrow> nat \<Rightarrow> js_error + veo_operation"
  decodeURIComponent :: "string \<Rightarrow> js_error + string"
  fetch_blob :: "string \<Rightarrow> js_error + blob"
  fal_subscribe :: "fal_request \<Rightarrow> js_error + fal_result"
  API_KEY :: string
  FAL_KEY :: "string option"

record FalFallbackConfig =
  text2img :: bool
  img2img :: bool
  inpaint :: bool
  video :: bool

datatype video_event =
    VeoSubmit veo_request
  | VeoPoll nat
  | VeoFetch string
  | Notify string
  | FalSubscribe fal_request
  | FalFetch string

text \<open>
  How the \<^verbatim>\<open>try\<close> block of \<open>generateVideo\<close> ends: it returns the videos, or control reaches
  the fallback, because the safety check threw the first filter reason (\<open>Filtered\<close>), because
  anything else threw (\<open>Failed\<close>), or because the finished operation carried no videos. The
  \<^verbatim>\<open>catch\<close> treats the two kinds of thrown errors alike.
\<close>

datatype primary_outcome =
    Returned "string list"
  | Filtered string
  | Failed js_error
  | NoVideos

text \<open>
  \<^verbatim>\<open>while (!operation.done)\<close>: \<open>k\<close> counts the polls made, the fuel bounds the polls still
  allowed; \<open>None\<close> is an operation that is not done when the fuel runs out.
\<close>

fun poll_loop ::
  "video_env \<Rightarrow> nat \<Rightarrow> nat \<Rightarrow> veo_operation \<Rightarrow> ((js_error + veo_operation) \<times> nat) option" where
  "poll_loop env fuel k operation =
     (if op_done operation then Some (Inr operation, k)
      else case fuel of
             0 \<Rightarrow> None
           | Suc f \<Rightarrow>
               (case getVideosOperation env operation k of
                  Inl e \<Rightarrow> Some (Inl e, Suc k)
                | Inr operation' \<Rightarrow> poll_loop env f (Suc k) operation'))"

definition fetch_video :: "video_env \<Rightarrow> string option \<Rightarrow> js_error + string" where
  "fetch_video env uri =
     (case uri of
        None \<Rightarrow> Inl (TypeError (''Cannot read properties of undefined (reading ''
            @ [CHR 0x27]
            @ ''uri''
            @ [CHR 0x27]
            @ '')''))
      | Some u \<Rightarrow>
          (case decodeURIComponent env u of
             Inl e \<Rightarrow> Inl e
           | Inr url \<Rightarrow>
               (case fetch_blob env (url @ ''&key='' @ API_KEY env) of
                  Inl e \<Rightarrow> Inl e
                | Inr b \<Rightarrow> Inr (bloblToBase64 env b))))"

text \<open>The fetches that \<^verbatim>\<open>Promise.all\<close> starts: one for every video whose uri decodes.\<close>

fun fetch_events :: "video_env \<Rightarrow> string option list \<Rightarrow> video_event list" where
  "fetch_events env [] = []"
| "fetch_events env (None # vs) = fetch_events env vs"
| "fetch_events env (Some u # vs) =
     (case decodeURIComponent env u of
        Inl e \<Rightarrow> fetch_events env vs
      | Inr url \<Rightarrow> VeoFetch (url @ ''&key='' @ API_KEY env) # fetch_events env vs)"

fun collect_all :: "(js_error + string) list \<Rightarrow> js_error + string list" where
  "collect_all [] = Inr []"
| "collect_all (Inl e # rs) = Inl e"
| "collect_all (Inr v # rs) = (case collect_all rs of Inl e \<Rightarrow> Inl e | Inr vs \<Rightarrow> Inr (v # vs))"

text \<open>The code after the polling loop, still inside the \<^verbatim>\<open>try\<close> block.\<close>

definition after_done :: "video_env \<Rightarrow> veo_operation \<Rightarrow> primary_outcome \<times> video_event list" where
  "after_done env operation =
     (case op_response operation of
        None \<Rightarrow> (NoVideos, [])
      | Some response \<Rightarrow>
          (let fetch_all =
                 (case generatedVideos response of
                    None \<Rightarrow> (NoVideos, [])
                  | Some vids \<Rightarrow>
                      (case collect_all (map (fetch_video env) vids) of
                         Inl e \<Rightarrow> (Failed e, fetch_events env vids)
                       | Inr out \<Rightarrow> (Returned out, fetch_events env vids)))
           in case raiMediaFilteredCount response of
                None \<Rightarrow> fetch_all
              | Some c \<Rightarrow>
                  if c = 0 then fetch_all
                  else (case raiMediaFilteredReasons response of
                          None \<Rightarrow>
                            (Failed (TypeError (''Cannot read properties of undefined (reading ''
            @ [CHR 0x27]
            @ ''length''
            @ [CHR 0x27]
            @ '')'')), [])
                        | Some [] \<Rightarrow> fetch_all
                        | Some (reason # _) \<Rightarrow> (Filtered reason, []))))"

definition veo_request_of ::
  "video_env \<Rightarrow> blob option \<Rightarrow> string \<Rightarrow> rat \<Rightarrow> string \<Rightarrow> veo_request" where
  "veo_request_of env imageBlob prompt numberOfVideos aspectRatio =
     \<lparr>vreq_model = VEO_MODEL_NAME,
      vreq_prompt = prompt,
      vreq_image = (case imageBlob of
                      None \<Rightarrow> None
                    | Some b \<Rightarrow> Some (bloblToBase64 env b, ''image/png'')),
      vreq_numberOfVideos = numberOfVideos,
      vreq_aspectRatio = aspectRatio\<rparr>"

definition veo_primary ::
  "video_env \<Rightarrow> nat \<Rightarrow> blob option \<Rightarrow> string \<Rightarrow> rat \<Rightarrow> string
     \<Rightarrow> (primary_outcome \<times> video_event list) option" where
  "veo_primary env fuel imageBlob prompt numberOfVideos aspectRatio =
     (let req = veo_request_of env imageBlob prompt numberOfVideos aspectRatio in
      case generateVideos env req of
        Inl e \<Rightarrow> Some (Failed e, [VeoSubmit req])
      | Inr operation \<Rightarrow>
          (case poll_loop env fuel 0 operation of
             None \<Rightarrow> None
           | Some (Inl e, k) \<Rightarrow> Some (Failed e, VeoSubmit req # map VeoPoll [0..<k])
           | Some (Inr operation', k) \<Rightarrow>
               (case after_done env operation' of
                  (outcome, evs) \<Rightarrow> Some (outcome, VeoSubmit req # map VeoPoll [0..<k] @ evs))))"

text \<open>\<open>falVeo3Video\<close>, which catches every error of its own and then returns no url.\<close>

definition truthy_urls :: "string option list \<Rightarrow> string list" where
  "truthy_urls vs = concat (map (\<lambda>v. case v of None \<Rightarrow> [] | Some u \<Rightarrow> if u = [] then [] else [u]) vs)"

definition first_present :: "'a option list \<Rightarrow> 'a option" where
  "first_present xs = (case concat (map (\<lambda>x. case x of None \<Rightarrow> [] | Some v \<Rightarrow> [v]) xs) of
                         [] \<Rightarrow> None | v # _ \<Rightarrow> Some v)"

definition fal_videos_of :: "fal_result \<Rightarrow> string list" where
  "fal_videos_of result =
     (let videos = (case first_present
                           [p_videos (res_top result),
                            (case res_data result of None \<Rightarrow> None | Some d \<Rightarrow> p_videos d),
                            (case res_output result of None \<Rightarrow> None | Some d \<Rightarrow> p_videos d)] of
                      None \<Rightarrow> []
                    | Some vs \<Rightarrow> vs)
      in if length videos \<noteq> 0 then truthy_urls videos
         else (case first_present
                      [p_video (res_top result),
                       (case res_data result of None \<Rightarrow> None | Some d \<Rightarrow> p_video d),
                       (case res_output result of None \<Rightarrow> None | Some d \<Rightarrow> p_video d)] of
                 None \<Rightarrow> []
               | Some single \<Rightarrow> truthy_urls [single]))"

definition fal_request_of :: "string \<Rightarrow> string \<Rightarrow> string option \<Rightarrow> fal_request" where
  "fal_request_of prompt aspectRatio imageDataUrl =
     \<lparr>fal_endpoint = ''fal-ai/veo3'', fal_prompt = prompt,
      fal_aspect_ratio = aspectRatio, fal_image_url = imageDataUrl\<rparr>"

definition falVeo3Video :: "video_env \<Rightarrow> string \<Rightarrow> string \<Rightarrow> string option \<Rightarrow> string list" where
  "falVeo3Video env prompt aspectRatio imageDataUrl =
     (case fal_subscribe env (fal_request_of prompt aspectRatio imageDataUrl) of
        Inl e \<Rightarrow> []
      | Inr result \<Rightarrow> fal_videos_of result)"

text \<open>The loop over the FAL urls: a url whose download throws is skipped.\<close>

fun download_all :: "video_env \<Rightarrow> string list \<Rightarrow> string list" where
  "download_all env [] = []"
| "download_all env (url # urls) =
     (case fetch_blob env url of
        Inl e \<Rightarrow> download_all env urls
      | Inr b \<Rightarrow> bloblToBase64 env b # download_all env urls)"

definition fal_enabled :: "video_env \<Rightarrow> FalFallbackConfig \<Rightarrow> bool" where
  "fal_enabled env falFallbackConfig =
     ((case FAL_KEY env of None \<Rightarrow> False | Some k \<Rightarrow> k \<noteq> []) \<and> video falFallbackConfig)"

text \<open>
  \<open>generateVideo\<close>, with the module state it reads: \<open>falFallbackConfig\<close>, and whether a
  \<open>notifyFallback\<close> hook is installed. The result is \<open>None\<close> when the polling does not end
  within the fuel; otherwise the promise's outcome and the calls made, in order.
\<close>

definition generateVideo ::
  "video_env \<Rightarrow> FalFallbackConfig \<Rightarrow> bool \<Rightarrow> nat \<Rightarrow> blob option \<Rightarrow> string \<Rightarrow> rat \<Rightarrow> string
     \<Rightarrow> ((js_error + string list) \<times> video_event list) option" where
  "generateVideo env falFallbackConfig notifyFallback fuel imageBlob prompt numberOfVideos aspectRatio =
     (case veo_primary env fuel imageBlob prompt numberOfVideos aspectRatio of
        None \<Rightarrow> None
      | Some (Returned out, evs) \<Rightarrow> Some (Inr out, evs)
      | Some (_, evs) \<Rightarrow>
          if \<not> fal_enabled env falFallbackConfig then Some (Inr [], evs)
          else
            (let imageDataUrl = (case imageBlob of
                                   None \<Rightarrow> None
                                 | Some b \<Rightarrow> Some (''data:image/png;base64,'' @ bloblToBase64 env b));
                 urls = falVeo3Video env prompt aspectRatio imageDataUrl
             in Some (Inr (download_all env urls),
                      evs @ (if notifyFallback then [Notify ''Usando fallback FAL: video''] else [])
                          @ [FalSubscribe (fal_request_of prompt aspectRatio imageDataUrl)]
                          @ map FalFetch urls)))"

subsection \<open>Which calls the primary path makes\<close>

fun is_fal_event :: "video_event \<Rightarrow> bool" where
  "is_fal_event (Notify m) = True"
| "is_fal_event (FalSubscribe r) = True"
| "is_fal_event (FalFetch u) = True"
| "is_fal_event ev = False"

lemma fetch_events_not_fal: "list_all (\<lambda>ev. \<not> is_fal_event ev) (fetch_events env vids)"
  by (induction env vids rule: fetch_events.induct) (auto split: sum.splits)

lemma after_done_not_fal:
  "after_done env operation = (outcome, evs) \<Longrightarrow> list_all (\<lambda>ev. \<not> is_fal_event ev) evs"
  using fetch_events_not_fal [of env]
  by (auto simp: after_done_def Let_def split: option.splits sum.splits if_splits list.splits)

lemma veo_primary_not_fal:
  assumes "veo_primary env fuel imageBlob prompt numberOfVideos aspectRatio = Some (outcome, evs)"
  shows "list_all (\<lambda>ev. \<not> is_fal_event ev) evs"
proof -
  have polls: "list_all (\<lambda>ev. \<not> is_fal_event ev) (map VeoPoll [0..<k])" for k
    by (simp add: list_all_iff)
  show ?thesis
    using assms polls after_done_not_fal [of env]
    by (auto simp: veo_primary_def Let_def split: sum.splits option.splits prod.splits)
qed

text \<open>
  Two concrete settings. In the first, Veo finishes at once with one filtered medium and its
  reason, a FAL key is configured and the video fallback is switched on. In the second, the
  Veo submission throws, and neither a FAL key nor the video fallback is available.
\<close>

definition filtered_env :: video_env where
  "filtered_env =
     \<lparr>bloblToBase64 = (\<lambda>b. b),
      generateVideos = (\<lambda>req. Inr \<lparr>op_done = True,
         op_response = Some \<lparr>raiMediaFilteredCount = Some 1,
                              raiMediaFilteredReasons = Some [''Blocked by the safety filter''],
                              generatedVideos = None\<rparr>\<rparr>),
      getVideosOperation = (\<lambda>operation k. Inr operation),
      decodeURIComponent = Inr,
      fetch_blob = (\<lambda>url. Inr (''bytes of '' @ url)),
      fal_subscribe = (\<lambda>req. Inr \<lparr>res_top = \<lparr>p_videos = Some [Some ''https://fal/v.mp4''],
                                                p_video = None\<rparr>,
                                     res_data = None, res_output = None\<rparr>),
      API_KEY = ''k'', FAL_KEY = Some ''id:secret''\<rparr>"

definition fallback_on :: FalFallbackConfig where
  "fallback_on = \<lparr>text2img = True, img2img = True, inpaint = True, video = True\<rparr>"

definition fallback_off :: FalFallbackConfig where
  "fallback_off = \<lparr>text2img = False, img2img = False, inpaint = False, video = False\<rparr>"

definition quota_env :: video_env where
  "quota_env =
     \<lparr>bloblToBase64 = (\<lambda>b. b),
      generateVideos = (\<lambda>req. Inl (Error ''quota exceeded'')),
      getVideosOperation = (\<lambda>operation k. Inr operation),
      decodeURIComponent = Inr,
      fetch_blob = (\<lambda>url. Inr (''bytes of '' @ url)),
      fal_subscribe = (\<lambda>req. Inl (Error ''no credentials'')),
      API_KEY = ''k'', FAL_KEY = None\<rparr>"

text \<open>
  Claim C3, evaluated where it fails. The claim: a Veo operation that completes with a
  non-empty list of filter reasons makes \<open>generateVideo\<close> fail with the first reason, and FAL
  is not invoked. The code throws that reason inside its own \<^verbatim>\<open>try\<close> block, so the
  \<^verbatim>\<open>catch\<close> takes it: with FAL available the request goes to FAL and its video is returned,
  and with the fallback switched off the call resolves to the empty list.
\<close>

theorem generateVideo_filtered_goes_to_fal:
  "after_done filtered_env
     \<lparr>op_done = True,
      op_response = Some \<lparr>raiMediaFilteredCount = Some 1,
                           raiMediaFilteredReasons = Some [''Blocked by the safety filter''],
                           generatedVideos = None\<rparr>\<rparr>
     = (Filtered ''Blocked by the safety filter'', [])
   \<and> generateVideo filtered_env fallback_on True 0 None ''a fight'' 1 ''16:9'' =
       Some (Inr [''bytes of https://fal/v.mp4''],
             [VeoSubmit (veo_request_of filtered_env None ''a fight'' 1 ''16:9''),
              Notify ''Usando fallback FAL: video'',
              FalSubscribe (fal_request_of ''a fight'' ''16:9'' None),
              FalFetch ''https://fal/v.mp4''])
   \<and> generateVideo filtered_env fallback_off True 0 None ''a fight'' 1 ''16:9'' =
       Some (Inr [], [VeoSubmit (veo_request_of filtered_env None ''a fight'' 1 ''16:9'')])"
  by (simp add: generateVideo_def veo_primary_def after_done_def filtered_env_def fallback_on_def
        fallback_off_def fal_enabled_def falVeo3Video_def fal_videos_of_def first_present_def
        truthy_urls_def veo_request_of_def fal_request_of_def)

text \<open>
  Claim C4 as stated fails: with the Veo submission throwing and no fallback available,
  \<open>generateVideo\<close> does not fail, it resolves to the empty list.
\<close>

theorem generateVideo_no_fallback_counterexample:
  "generateVideo quota_env fallback_off False 0 None ''a cat'' 1 ''16:9'' =
     Some (Inr [], [VeoSubmit (veo_request_of quota_env None ''a cat'' 1 ''16:9'')])"
  by (simp add: generateVideo_def veo_primary_def quota_env_def fallback_off_def fal_enabled_def
        veo_request_of_def)

text \<open>
  Claim C4, amended. When the primary path ends without videos because a call threw or the
  finished operation carried none (the safety rejection apart), and the video fallback is
  switched off or no FAL key is configured, \<open>generateVideo\<close> returns the empty list: it does
  not raise, and neither the FAL endpoint nor the fallback notification is reached.
\<close>

theorem generateVideo_no_fallback_returns_empty:
  assumes "veo_primary env fuel imageBlob prompt numberOfVideos aspectRatio = Some (outcome, evs)"
      and "outcome = Failed e \<or> outcome = NoVideos"
      and "FAL_KEY env = None \<or> FAL_KEY env = Some [] \<or> \<not> video falFallbackConfig"
  shows "generateVideo env falFallbackConfig notifyFallback fuel imageBlob prompt numberOfVideos
           aspectRatio = Some (Inr [], evs)
       \<and> list_all (\<lambda>ev. \<not> is_fal_event ev) evs"
proof -
  have "\<not> fal_enabled env falFallbackConfig"
    using assms(3) by (auto simp: fal_enabled_def split: option.splits)
  then have "generateVideo env falFallbackConfig notifyFallback fuel imageBlob prompt numberOfVideos
           aspectRatio = Some (Inr [], evs)"
    using assms(1,2) by (auto simp: generateVideo_def)
  then show ?thesis using veo_primary_not_fal [OF assms(1)] by simp
qed

theorem generateVideo_no_fallback_returns_empty_witness:
  "veo_primary quota_env 0 None ''a cat'' 1 ''16:9'' =
     Some (Failed (Error ''quota exceeded''),
           [VeoSubmit (veo_request_of quota_env None ''a cat'' 1 ''16:9'')])
   \<and> FAL_KEY quota_env = None
   \<and> generateVideo quota_env fallback_on True 0 None ''a cat'' 1 ''16:9'' =
     Some (Inr [], [VeoSubmit (veo_request_of quota_env None ''a cat'' 1 ''16:9'')])"
proof -
  have p: "veo_primary quota_env 0 None ''a cat'' 1 ''16:9'' =
     Some (Failed (Error ''quota exceeded''),
           [VeoSubmit (veo_request_of quota_env None ''a cat'' 1 ''16:9'')])"
    by (simp add: veo_primary_def quota_env_def veo_request_of_def)
  have k: "FAL_KEY quota_env = None" by (simp add: quota_env_def)
  show ?thesis
    using generateVideo_no_fallback_returns_empty [OF p, of "Error ''quota exceeded''" fallback_on True]
      p k by simp
qed

section \<open>The canvas document and bakeOverlayBetweenShapes\<close>

text \<open>
  The editor is the store the code reads and writes: shapes with their type, lock, asset
  reference and page bounds, assets, and the selection. The asset reference of a shape is
  \<^verbatim>\<open>shape.props.assetId\<close>: an asset id, \<^verbatim>\<open>null\<close>, or \<^verbatim>\<open>undefined\<close> for a shape type
  without that property. \<open>getShape\<close>, \<open>getAsset\<close>, \<open>updateAssets\<close>, \<open>deleteShapes\<close> and
  \<open>select\<close> are the editor operations of those names: \<open>getAsset\<close> throws on a reference
  that is not an id, \<open>updateAssets\<close> changes an asset that exists, and \<open>deleteShapes\<close>
  leaves locked shapes in place.
\<close>

type_synonym asset_id = string

datatype asset_ref = AssetId asset_id | NullAssetId | NoAssetId

record box =
  left :: rat
  top :: rat
  width :: rat
  height :: rat

record shape =
  shape_type :: string
  shape_isLocked :: bool
  shape_assetId :: asset_ref
  shape_bounds :: box

record asset =
  asset_type :: string
  asset_src :: string
  asset_w :: rat
  asset_h :: rat
  asset_name :: string
  asset_isAnimated :: bool
  asset_mimeType :: string

record editor =
  shapes :: "shape_id \<rightharpoonup> shape"
  assets :: "asset_id \<rightharpoonup> asset"
  selectedShapeIds :: "shape_id list"

definition getShape :: "editor \<Rightarrow> shape_id \<Rightarrow> shape option" where
  "getShape ed i = shapes ed i"

definition getAsset :: "editor \<Rightarrow> asset_ref \<Rightarrow> js_error + asset option" where
  "getAsset ed a =
     (case a of
        AssetId i \<Rightarrow> Inr (assets ed i)
      | NullAssetId \<Rightarrow> Inl (TypeError (''Cannot read properties of null (reading ''
                                         @ [CHR 0x27] @ ''id'' @ [CHR 0x27] @ '')''))
      | NoAssetId \<Rightarrow> Inl (TypeError (''Cannot read properties of undefined (reading ''
                                       @ [CHR 0x27] @ ''id'' @ [CHR 0x27] @ '')'')))"

definition updateAssets :: "editor \<Rightarrow> asset_ref \<Rightarrow> asset \<Rightarrow> editor" where
  "updateAssets ed r a =
     (case r of
        AssetId i \<Rightarrow> (case assets ed i of
                       None \<Rightarrow> ed
                     | Some _ \<Rightarrow> ed\<lparr>assets := (assets ed)(i \<mapsto> a)\<rparr>)
      | _ \<Rightarrow> ed)"

definition unlocked :: "editor \<Rightarrow> shape_id \<Rightarrow> bool" where
  "unlocked ed i = (case shapes ed i of None \<Rightarrow> True | Some sh \<Rightarrow> \<not> shape_isLocked sh)"

definition deleteShapes :: "editor \<Rightarrow> shape_id list \<Rightarrow> editor" where
  "deleteShapes ed ids =
     ed\<lparr>shapes := (\<lambda>i. if i \<in> set (filter (unlocked ed) ids) then None else shapes ed i),
        selectedShapeIds :=
          filter (\<lambda>i. i \<notin> set (filter (unlocked ed) ids)) (selectedShapeIds ed)\<rparr>"

definition select :: "editor \<Rightarrow> shape_id list \<Rightarrow> editor" where
  "select ed ids = ed\<lparr>selectedShapeIds := ids\<rparr>"

text \<open>
  Numbers are the rationals that the program's doubles denote. \<^verbatim>\<open>Math.round\<close> rounds half
  up and is exact on them. The difference of two doubles is rounded to a double by the
  platform; it is a parameter of the environment below.
\<close>

definition js_round :: "rat \<Rightarrow> int" where
  "js_round x = \<lfloor>x + 1 / 2\<rfloor>"

text \<open>
  Bitmaps and the 2D canvas. A pixel is its four channels. \<open>drawImage\<close> is the three-argument
  \<^verbatim>\<open>ctx.drawImage(image, dx, dy)\<close>: inside the canvas and inside the image's rectangle placed
  at \<open>(dx, dy)\<close> the image's pixel is composited over the canvas pixel; every other pixel is
  left as it is. The compositing operator is the platform's and is a parameter.
\<close>

type_synonym pixel = "nat \<times> nat \<times> nat \<times> nat"

record bitmap =
  bm_width :: nat
  bm_height :: nat
  bm_pixel :: "int \<Rightarrow> int \<Rightarrow> pixel"

definition blank_canvas :: "nat \<Rightarrow> nat \<Rightarrow> bitmap" where
  "blank_canvas w h = \<lparr>bm_width = w, bm_height = h, bm_pixel = (\<lambda>x y. (0, 0, 0, 0))\<rparr>"

definition in_rect :: "int \<Rightarrow> int \<Rightarrow> nat \<Rightarrow> nat \<Rightarrow> int \<Rightarrow> int \<Rightarrow> bool" where
  "in_rect x0 y0 w h x y = (x0 \<le> x \<and> x < x0 + int w \<and> y0 \<le> y \<and> y < y0 + int h)"

definition drawImage :: "(pixel \<Rightarrow> pixel \<Rightarrow> pixel) \<Rightarrow> bitmap \<Rightarrow> bitmap \<Rightarrow> int \<Rightarrow> int \<Rightarrow> bitmap" where
  "drawImage over canvas img dx dy =
     canvas\<lparr>bm_pixel := (\<lambda>x y.
        if in_rect 0 0 (bm_width canvas) (bm_height canvas) x y
           \<and> in_rect dx dy (bm_width img) (bm_height img) x y
        then over (bm_pixel img (x - dx) (y - dy)) (bm_pixel canvas x y)
        else bm_pixel canvas x y)\<rparr>"

text \<open>
  The platform calls of \<open>bakeOverlayBetweenShapes\<close> are parameters: \<^verbatim>\<open>editor.toImage\<close> of
  one shape as PNG at scale 1 (with or without background), \<^verbatim>\<open>createImageBitmap\<close>, whether
  \<^verbatim>\<open>getContext('2d')\<close> gives a context, \<^verbatim>\<open>canvas.toBlob\<close> (no blob on failure), the
  compositing operator, and the subtraction of doubles. None of them is a generative model.
\<close>

record browser_env = utils_env +
  toImage :: "editor \<Rightarrow> shape_id list \<Rightarrow> bool \<Rightarrow> js_error + blob"
  createImageBitmap :: "blob \<Rightarrow> js_error + bitmap"
  getContext2d :: bool
  toBlob :: "bitmap \<Rightarrow> blob option"
  source_over :: "pixel \<Rightarrow> pixel \<Rightarrow> pixel"
  double_minus :: "rat \<Rightarrow> rat \<Rightarrow> rat"

definition overlay_offset :: "browser_env \<Rightarrow> box \<Rightarrow> box \<Rightarrow> int \<times> int" where
  "overlay_offset env baseBounds overlayBounds =
     (js_round (double_minus env (left overlayBounds) (left baseBounds)),
      js_round (double_minus env (top overlayBounds) (top baseBounds)))"

text \<open>The canvas after the two \<^verbatim>\<open>drawImage\<close> calls.\<close>

definition base_canvas :: "browser_env \<Rightarrow> box \<Rightarrow> bitmap \<Rightarrow> bitmap" where
  "base_canvas env baseBounds baseBitmap =
     drawImage (source_over env)
       (blank_canvas (nat (max 1 (js_round (width baseBounds))))
                     (nat (max 1 (js_round (height baseBounds)))))
       baseBitmap 0 0"

definition baked_canvas :: "browser_env \<Rightarrow> box \<Rightarrow> box \<Rightarrow> bitmap \<Rightarrow> bitmap \<Rightarrow> bitmap" where
  "baked_canvas env baseBounds overlayBounds baseBitmap overlayBitmap =
     (case overlay_offset env baseBounds overlayBounds of
        (dx, dy) \<Rightarrow> drawImage (source_over env) (base_canvas env baseBounds baseBitmap) overlayBitmap dx dy)"

definition png_data_url :: "browser_env \<Rightarrow> blob \<Rightarrow> string" where
  "png_data_url env b = ''data:image/png;base64,'' @ bloblToBase64 env b"

definition baked_asset :: "asset \<Rightarrow> string \<Rightarrow> box \<Rightarrow> asset" where
  "baked_asset existingAsset newSrc baseBounds =
     \<lparr>asset_type = ''image'', asset_src = newSrc,
      asset_w = of_int (js_round (width baseBounds)),
      asset_h = of_int (js_round (height baseBounds)),
      asset_name = asset_name existingAsset,
      asset_isAnimated = False,
      asset_mimeType = ''image/png''\<rparr>"

definition bakeOverlayBetweenShapes ::
  "browser_env \<Rightarrow> editor \<Rightarrow> shape_id \<Rightarrow> shape_id \<Rightarrow> (js_error + unit) \<times> editor" where
  "bakeOverlayBetweenShapes env ed baseShapeId overlayShapeId =
     (case getShape ed baseShapeId of
        None \<Rightarrow> (Inl (Error ''Both shapes must be images.''), ed)
      | Some baseShape \<Rightarrow>
     (case getShape ed overlayShapeId of
        None \<Rightarrow> (Inl (Error ''Both shapes must be images.''), ed)
      | Some overlayShape \<Rightarrow>
     (case toImage env ed [baseShapeId] True of
        Inl e \<Rightarrow> (Inl e, ed)
      | Inr baseExport \<Rightarrow>
     (case toImage env ed [overlayShapeId] False of
        Inl e \<Rightarrow> (Inl e, ed)
      | Inr overlayExport \<Rightarrow>
     (case createImageBitmap env baseExport of
        Inl e \<Rightarrow> (Inl e, ed)
      | Inr baseBitmap \<Rightarrow>
     (case createImageBitmap env overlayExport of
        Inl e \<Rightarrow> (Inl e, ed)
      | Inr overlayBitmap \<Rightarrow>
     if \<not> getContext2d env then (Inl (Error ''Could not get 2D context.''), ed)
     else
     (case toBlob env (baked_canvas env (shape_bounds baseShape) (shape_bounds overlayShape)
                         baseBitmap overlayBitmap) of
        None \<Rightarrow> (Inl (Error ''Failed to bake overlay''), ed)
      | Some b \<Rightarrow>
     (case getAsset ed (shape_assetId baseShape) of
        Inl e \<Rightarrow> (Inl e, ed)
      | Inr None \<Rightarrow> (Inl (Error ''Base asset not found or not an image.''), ed)
      | Inr (Some existingAsset) \<Rightarrow>
     if asset_type existingAsset \<noteq> ''image''
     then (Inl (Error ''Base asset not found or not an image.''), ed)
     else
       (Inr (),
        select
          (deleteShapes
             (updateAssets ed (shape_assetId baseShape)
                (baked_asset existingAsset (png_data_url env b) (shape_bounds baseShape)))
             [overlayShapeId])
          [baseShapeId])))))))))"

subsection \<open>What the bake changes\<close>



text \<open>
  A document with a base image of 4 by 3 at (10, 20) and a logo of 2 by 1 at (11.5, 21), and a
  platform that renders the base as an opaque grey bitmap and the logo as another,
  composites by replacing, and subtracts these numbers exactly. Two variants: the logo locked,
  and the base asset stored at 1280 by 960 while its shape measures 640 by 480.
\<close>

definition demo_editor :: editor where
  "demo_editor =
     \<lparr>shapes = [''shape:base'' \<mapsto> \<lparr>shape_type = ''image'', shape_isLocked = False,
                                    shape_assetId = AssetId ''asset:base'',
                                    shape_bounds = \<lparr>left = 10, top = 20, width = 4, height = 3\<rparr>\<rparr>,
                ''shape:logo'' \<mapsto> \<lparr>shape_type = ''image'', shape_isLocked = False,
                                    shape_assetId = AssetId ''asset:logo'',
                                    shape_bounds = \<lparr>left = 23 / 2, top = 21, width = 2, height = 1\<rparr>\<rparr>],
      assets = [''asset:base'' \<mapsto> \<lparr>asset_type = ''image'', asset_src = ''data:image/png;base64,BASE'',
                                    asset_w = 4, asset_h = 3, asset_name = ''base.png'',
                                    asset_isAnimated = False, asset_mimeType = ''image/png''\<rparr>,
                ''asset:logo'' \<mapsto> \<lparr>asset_type = ''image'', asset_src = ''data:image/png;base64,LOGO'',
                                    asset_w = 2, asset_h = 1, asset_name = ''logo.png'',
                                    asset_isAnimated = False, asset_mimeType = ''image/png''\<rparr>],
      selectedShapeIds = []\<rparr>"



definition demo_browser :: browser_env where
  "demo_browser =
     \<lparr>bloblToBase64 = (\<lambda>b. b),
      toImage = (\<lambda>ed ids background. Inr (concat ids)),
      createImageBitmap = (\<lambda>b.
         if b = ''shape:base''
         then Inr \<lparr>bm_width = 4, bm_height = 3, bm_pixel = (\<lambda>x y. (1, 1, 1, 255))\<rparr>
         else Inr \<lparr>bm_width = 2, bm_height = 1, bm_pixel = (\<lambda>x y. (9, 9, 9, 255))\<rparr>),
      getContext2d = True,
      toBlob = (\<lambda>bm. Some ''BAKED''),
      source_over = (\<lambda>src dst. src),
      double_minus = (\<lambda>a b. a - b)\<rparr>"









section \<open>The assistant orchestrator\<close>

definition GEMINI_MODEL_NAME :: string where
  "GEMINI_MODEL_NAME = ''gemini-2.5-pro''"

text \<open>
  The tool registry: name, parameters with their schema type, required parameters. The
  free-text descriptions are left out.
\<close>

record tool_declaration =
  decl_name :: string
  decl_properties :: "(string \<times> string) list"
  decl_required :: "string list"

definition toolDeclarations :: "tool_declaration list" where
  "toolDeclarations =
     [\<lparr>decl_name = ''generateImage'',
       decl_properties = [(''prompt'', ''STRING''), (''numberOfImages'', ''NUMBER''), (''aspectRatio'', ''STRING''), (''variationStrength'', ''NUMBER''), (''stylePreset'', ''STRING''), (''negativePrompt'', ''STRING''), (''seed'', ''NUMBER'')],
       decl_required = [''prompt'']\<rparr>,
      \<lparr>decl_name = ''editImage'',
       decl_properties = [(''prompt'', ''STRING'')],
       decl_required = [''prompt'']\<rparr>,
      \<lparr>decl_name = ''removeBackground'',
       decl_properties = [],
       decl_required = []\<rparr>,
      \<lparr>decl_name = ''applyOverlay'',
       decl_properties = [(''baseShapeId'', ''STRING''), (''overlayShapeId'', ''STRING'')],
       decl_required = []\<rparr>,
      \<lparr>decl_name = ''composeAI'',
       decl_properties = [(''prompt'', ''STRING''), (''baseShapeId'', ''STRING''), (''overlayShapeId'', ''STRING'')],
       decl_required = [''prompt'']\<rparr>,
      \<lparr>decl_name = ''upscaleImage'',
       decl_properties = [(''factor'', ''NUMBER'')],
       decl_required = []\<rparr>,
      \<lparr>decl_name = ''generateVideo'',
       decl_properties = [(''prompt'', ''STRING''), (''aspectRatio'', ''STRING'')],
       decl_required = [''prompt'']\<rparr>,
      \<lparr>decl_name = ''plan'',
       decl_properties = [(''steps'', ''ARRAY'')],
       decl_required = []\<rparr>]"

definition SYSTEM_INSTRUCTION :: string where
  "SYSTEM_INSTRUCTION =
       ''You are a helpful canvas assistant with tool access. Your job is to ch''
       @ ''oose and sequence tools to achieve the user''
       @ [CHR 0x27]
       @ ''s goal with minimal back-and-forth.''
       @ [CHR 0x0A]
       @ '' - Prefer:''
       @ [CHR 0x0A]
       @ ''   * generateImage: creating or varying images (text or text+reference''
       @ ''). Add style/variation/negative if provided.''
       @ [CHR 0x0A]
       @ ''   * editImage: precise/local changes; open the mask editor for the se''
       @ ''lected image.''
       @ [CHR 0x0A]
       @ ''   * removeBackground: when asked to remove background.''
       @ [CHR 0x0A]
       @ ''   * applyOverlay: pixel-perfect placement (e.g., logo ''
       @ [CHR 0xE2, CHR 0x86, CHR 0x92]
       @ '' banner).''
       @ [CHR 0x0A]
       @ ''   * composeAI: natural integration of overlay using AI.''
       @ [CHR 0x0A]
       @ ''   * upscaleImage: increase resolution / clarity.''
       @ [CHR 0x0A]
       @ ''   * generateVideo: when asked for motion from text and/or one image.''
       @ [CHR 0x0A]
       @ '' - When unclear or multi-step, call plan first with 2''
       @ [CHR 0xE2, CHR 0x80, CHR 0x93]
       @ ''5 concise steps, then proceed.''
       @ [CHR 0x0A]
       @ '' - Prompts:''
       @ [CHR 0x0A]
       @ ''   * For variants, include guidance to change pose/composition/angle/l''
       @ ''ighting and not reproduce scene exactly.''
       @ [CHR 0x0A]
       @ ''   * If negativePrompt/stylePreset/variationStrength/seed provided, we''
       @ ''ave into the prompt text.''
       @ [CHR 0x0A]
       @ '' - Context images:''
       @ [CHR 0x0A]
       @ ''   * If the user clicks ''
       @ [CHR 0x22]
       @ ''Use in Chat''
       @ [CHR 0x22]
       @ '', treat that as reference/overlay.''
       @ [CHR 0x0A]
       @ ''   * If a base image is selected, treat that as target for edit/compos''
       @ ''e.''"

text \<open>
  A chat object: its model, tools and system instruction, and the messages sent on it so far.
  Chat objects live in a store and are referred to by number. The language model is a
  parameter: it answers, or throws, from the chat as it is after the new message was added.
\<close>

record chat =
  chat_model :: string
  chat_tools :: "tool_declaration list"
  chat_systemInstruction :: string
  chat_sent :: "part list list"

record response =
  resp_candidates :: "content option list"

record chat_image =
  img_src :: string
  img_shapeId :: shape_id

record editing_image =
  edit_assetId :: asset_ref
  edit_src :: string
  edit_bounds :: box
  edit_initialPrompt :: "string option"
  edit_overlaySrc :: "string option"

record toast =
  toast_title :: string
  toast_description :: "string option"
  toast_severity :: string

text \<open>
  What a tool can touch: the document, the image open in the mask editor, the toasts. The
  component state adds the transcript, the chat session and the last image used in chat.
\<close>

record workspace =
  doc :: editor
  editingImage :: "editing_image option"
  toasts :: "toast list"

record ui_state =
  ws :: workspace
  chatHistory :: "content list"
  chatSession :: "nat option"
  lastAssistantImageInChat :: "chat_image option"
  chats :: "nat \<rightharpoonup> chat"
  next_chat :: nat

text \<open>
  The flows the tool handlers hand over to are parameters acting on the workspace:
  \<open>genImageFlow\<close> is the prompt card, \<open>genImageClick\<close> and the removal of the card;
  \<open>composeFlow\<close> is the export of base and overlay, the white mask, \<open>editImage\<close> and
  \<open>handleSaveEditedImage\<close>; \<open>generateNewVideo\<close> and \<open>runEditImage\<close> are the functions of
  those names. \<open>numToString\<close> is the text of a number in a template literal.
\<close>

record tools_env =
  browser :: browser_env
  llm :: "chat \<Rightarrow> js_error + response"
  numToString :: "rat \<Rightarrow> string"
  genImageFlow :: "string option \<Rightarrow> rat \<Rightarrow> string \<Rightarrow> workspace \<Rightarrow> (js_error + unit) \<times> workspace"
  generateNewVideo :: "string option \<Rightarrow> string option \<Rightarrow> string \<Rightarrow> workspace \<Rightarrow> (js_error + unit) \<times> workspace"
  runEditImage :: "string \<Rightarrow> shape_id \<Rightarrow> workspace \<Rightarrow> (js_error + unit) \<times> workspace"
  composeFlow :: "shape_id \<Rightarrow> shape_id \<Rightarrow> asset_ref \<Rightarrow> string option \<Rightarrow> workspace
                   \<Rightarrow> (js_error + unit) \<times> workspace"

subsection \<open>Regular expressions of the orchestrator\<close>

definition lower :: "char \<Rightarrow> char" where
  "lower c = (case map_of (zip ''ABCDEFGHIJKLMNOPQRSTUVWXYZ'' ''abcdefghijklmnopqrstuvwxyz'') c of
                None \<Rightarrow> c
              | Some l \<Rightarrow> l)"

fun any_suffix :: "(string \<Rightarrow> bool) \<Rightarrow> string \<Rightarrow> bool" where
  "any_suffix P [] = P []"
| "any_suffix P (c # cs) = (P (c # cs) \<or> any_suffix P cs)"

text \<open>
  A case-insensitive search for an ASCII literal given in lower case. Without the \<^verbatim>\<open>u\<close> flag
  a character outside ASCII never matches an ASCII letter, so folding the ASCII letters is
  all the \<^verbatim>\<open>i\<close> flag does to these patterns.
\<close>

definition icontains :: "string \<Rightarrow> string \<Rightarrow> bool" where
  "icontains pat s = any_suffix (starts_with pat) (map lower s)"

text \<open>\<^verbatim>\<open>/INTERNAL|code":500|status":\s*500/i\<close>\<close>

definition transient_error :: "string \<Rightarrow> bool" where
  "transient_error msg =
     (icontains ''internal'' msg
      \<or> icontains (''code'' @ [CHR 0x22] @ '':500'') msg
      \<or> any_suffix (\<lambda>s. starts_with (''status'' @ [CHR 0x22] @ '':'') s
                          \<and> starts_with ''500'' (drop_seqs white_space (drop 8 s)))
           (map lower msg))"

text \<open>\<^verbatim>\<open>/did not return images/i\<close>\<close>

definition no_images_error :: "string \<Rightarrow> bool" where
  "no_images_error msg = icontains ''did not return images'' msg"

text \<open>
  \<^verbatim>\<open>src.match(/data:(.*);base64,(.*)/)\<close>: both groups of the leftmost match; the first
  group is the one \<open>match_data_mime\<close> gives, the second runs to the end of the line.
\<close>

fun match_data_url :: "string \<Rightarrow> (string \<times> string) option" where
  "match_data_url [] = None"
| "match_data_url (c # cs) =
     (if starts_with ''data:'' (c # cs)
      then (case greedy_capture '';base64,'' (drop 5 (c # cs)) of
              Some g \<Rightarrow>
                Some (g, line_of (drop (5 + length g + 8) (c # cs)))
            | None \<Rightarrow> match_data_url cs)
      else match_data_url cs)"

subsection \<open>Chats\<close>

definition chats_create :: "string \<Rightarrow> ui_state \<Rightarrow> nat \<times> ui_state" where
  "chats_create model st =
     (next_chat st,
      st\<lparr>chats := (chats st)(next_chat st \<mapsto>
             \<lparr>chat_model = model, chat_tools = toolDeclarations,
              chat_systemInstruction = SYSTEM_INSTRUCTION, chat_sent = []\<rparr>),
         next_chat := Suc (next_chat st)\<rparr>)"

definition sendMessage ::
  "tools_env \<Rightarrow> nat \<Rightarrow> part list \<Rightarrow> ui_state \<Rightarrow> (js_error + response) \<times> ui_state" where
  "sendMessage env c message st =
     (case chats st c of
        None \<Rightarrow> (Inl (TypeError (''Cannot read properties of undefined (reading ''
            @ [CHR 0x27]
            @ ''sendMessage''
            @ [CHR 0x27]
            @ '')'')), st)
      | Some ch \<Rightarrow>
          (let ch' = ch\<lparr>chat_sent := chat_sent ch @ [message]\<rparr>
           in (llm env ch', st\<lparr>chats := (chats st)(c \<mapsto> ch')\<rparr>)))"

definition addToast :: "toast \<Rightarrow> workspace \<Rightarrow> workspace" where
  "addToast t w = w\<lparr>toasts := toasts w @ [t]\<rparr>"

definition pro_unavailable_toast :: toast where
  "pro_unavailable_toast =
     \<lparr>toast_title = ''Assistente (Pro) indispon''
          @ [CHR 0xC3, CHR 0xAD]
          @ ''vel'',
      toast_description = Some (''Alternando para modelo Flash para continuar.''),
      toast_severity = ''info''\<rparr>"

text \<open>
  The first model call of a submission with its \<^verbatim>\<open>catch\<close>: a transient error raises the
  toast, creates the Flash chat, makes it the session and sends the same parts to it; any
  other error is thrown again.
\<close>

definition first_response ::
  "tools_env \<Rightarrow> nat \<Rightarrow> part list \<Rightarrow> ui_state \<Rightarrow> (js_error + response) \<times> ui_state" where
  "first_response env c userParts st =
     (case sendMessage env c userParts st of
        (Inr response, st1) \<Rightarrow> (Inr response, st1)
      | (Inl err, st1) \<Rightarrow>
          if transient_error (error_text err) then
            (let st2 = st1\<lparr>ws := addToast pro_unavailable_toast (ws st1)\<rparr>;
                 (fallbackChat, st3) = chats_create ''gemini-2.5-flash'' st2;
                 st4 = st3\<lparr>chatSession := Some fallbackChat\<rparr>
             in sendMessage env fallbackChat userParts st4)
          else (Inl err, st1))"

subsection \<open>Tool handlers\<close>

record tool_context =
  imageForToolContext :: "string option"
  shapeIdForEditing :: "shape_id option"
  lastImage :: "chat_image option"

text \<open>
  \<^verbatim>\<open>image?.src ?? lastAssistantImageInChat?.src\<close> and the same for the shape id, with the
  \<open>lastAssistantImageInChat\<close> the handler was created with.
\<close>

definition tool_context_of :: "chat_image option \<Rightarrow> chat_image option \<Rightarrow> tool_context" where
  "tool_context_of attachedImage lastAssistantImage =
     \<lparr>imageForToolContext = (case attachedImage of Some i \<Rightarrow> Some (img_src i)
                                            | None \<Rightarrow> map_option img_src lastAssistantImage),
      shapeIdForEditing = (case attachedImage of Some i \<Rightarrow> Some (img_shapeId i)
                                          | None \<Rightarrow> map_option img_shapeId lastAssistantImage),
      lastImage = lastAssistantImage\<rparr>"

text \<open>An absent or empty string is falsy; an absent value prints as \<^verbatim>\<open>undefined\<close>.\<close>

definition falsy :: "string option \<Rightarrow> bool" where
  "falsy s = (case s of None \<Rightarrow> True | Some v \<Rightarrow> v = [])"

definition template_text :: "string option \<Rightarrow> string" where
  "template_text s = (case s of None \<Rightarrow> ''undefined'' | Some v \<Rightarrow> v)"

fun join :: "string \<Rightarrow> string list \<Rightarrow> string" where
  "join sep [] = []"
| "join sep [x] = x"
| "join sep (x # y # ys) = x @ sep @ join sep (y # ys)"

text \<open>The overlay of \<open>editImage\<close>: the last chat image when its shape is not the target.\<close>

definition editImage_overlaySrc :: "tool_context \<Rightarrow> string option" where
  "editImage_overlaySrc ctx =
     (case lastImage ctx of
        None \<Rightarrow> None
      | Some l \<Rightarrow> if Some (img_shapeId l) \<noteq> shapeIdForEditing ctx then Some (img_src l) else None)"

text \<open>The base and the overlay \<open>applyOverlay\<close> and \<open>composeAI\<close> resolve.\<close>

definition applyOverlay_targets :: "fn_args \<Rightarrow> tool_context \<Rightarrow> shape_id option \<times> shape_id option" where
  "applyOverlay_targets args ctx =
     (let baseId = (if falsy (arg_baseShapeId args) then shapeIdForEditing ctx
                    else arg_baseShapeId args);
          overlayId = (case lastImage ctx of
                         Some l \<Rightarrow> if falsy (arg_overlayShapeId args) then Some (img_shapeId l)
                                   else arg_overlayShapeId args
                       | None \<Rightarrow> arg_overlayShapeId args)
      in (baseId, overlayId))"

definition composeAI_targets :: "fn_args \<Rightarrow> tool_context \<Rightarrow> shape_id option \<times> shape_id option" where
  "composeAI_targets args ctx =
     (let baseId = (if falsy (arg_baseShapeId args) then shapeIdForEditing ctx
                    else arg_baseShapeId args);
          overlayId = (if falsy (arg_overlayShapeId args) then map_option img_shapeId (lastImage ctx)
                       else arg_overlayShapeId args)
      in (baseId, overlayId))"

definition generateImage_prompt :: "tools_env \<Rightarrow> fn_args \<Rightarrow> string option" where
  "generateImage_prompt env args =
     (let extras =
            (case arg_variationStrength args of
               None \<Rightarrow> [] | Some v \<Rightarrow> [''Variation strength: '' @ numToString env v @ ''.''])
          @ (if falsy (arg_stylePreset args) then []
             else [''Style: '' @ template_text (arg_stylePreset args) @ ''.''])
          @ (if falsy (arg_negativePrompt args) then []
             else [''Avoid: '' @ template_text (arg_negativePrompt args) @ ''.''])
          @ (case arg_seed args of
               None \<Rightarrow> [] | Some v \<Rightarrow> [''Seed: '' @ numToString env v @ ''.''])
      in if length extras \<noteq> 0
         then Some (template_text (arg_prompt args) @ [CHR 0x0A] @ join '' '' extras)
         else arg_prompt args)"

definition or_default :: "'a option \<Rightarrow> 'a \<Rightarrow> 'a" where
  "or_default v d = (case v of None \<Rightarrow> d | Some x \<Rightarrow> x)"

text \<open>
  The body of the \<^verbatim>\<open>try\<close> block of the loop: the handler chosen by the name of the
  function call. \<open>Inl\<close> is an exception leaving the handler.
\<close>

definition run_tool ::
  "tools_env \<Rightarrow> tool_context \<Rightarrow> fn_call \<Rightarrow> workspace \<Rightarrow> (js_error + tool_result) \<times> workspace" where
  "run_tool env ctx fn w =
     (let args = fn_args fn in
      if fn_name fn = ''editImage'' then
        (case (if falsy (shapeIdForEditing ctx) then None else shapeIdForEditing ctx) of
           None \<Rightarrow> (Inr (ToolError (''No image selected for editing. The user must select an image and click''
                 @ '' ''
                 @ [CHR 0x22]
                 @ ''Use in Chat''
                 @ [CHR 0x22]
                 @ '' first.'')), w)
         | Some sid \<Rightarrow>
             (case getShape (doc w) sid of
                None \<Rightarrow> (Inr (ToolError ''Selected shape is not an image.''), w)
              | Some imgShape \<Rightarrow>
                  (case getAsset (doc w) (shape_assetId imgShape) of
                     Inl e \<Rightarrow> (Inl e, w)
                   | Inr None \<Rightarrow> (Inr (ToolError ''Could not locate image asset or bounds.''), w)
                   | Inr (Some a) \<Rightarrow>
                       (Inr (ToolOutput ''Opened mask editor. Paint the area to edit and click Generate.''),
                        w\<lparr>editingImage := Some
                             \<lparr>edit_assetId = shape_assetId imgShape,
                              edit_src = asset_src a,
                              edit_bounds = shape_bounds imgShape,
                              edit_initialPrompt = arg_prompt args,
                              edit_overlaySrc = editImage_overlaySrc ctx\<rparr>\<rparr>))))
      else if fn_name fn = ''generateImage'' then
        (case genImageFlow env (generateImage_prompt env args)
                (or_default (arg_numberOfImages args) 1)
                (or_default (arg_aspectRatio args) ''16:9'') w of
           (Inl e, w') \<Rightarrow> (Inl e, w')
         | (Inr u, w') \<Rightarrow>
             (Inr (ToolOutput (''Successfully generated ''
                     @ numToString env (or_default (arg_numberOfImages args) 1)
                     @ '' image(s). An image was in the chat context but ''
                     @ [CHR 0x27]
                     @ ''generateImage''
                     @ [CHR 0x27]
                     @ '' was used, so it was ignored. For editing, please rephrase your reques''
                     @ ''t to make it clear you want to modify the existing image.'')), w'))
      else if fn_name fn = ''generateVideo'' then
        (case generateNewVideo env (arg_prompt args) (imageForToolContext ctx)
                (or_default (arg_aspectRatio args) ''16:9'') w of
           (Inl e, w') \<Rightarrow> (Inl e, w')
         | (Inr u, w') \<Rightarrow> (Inr (ToolOutput ''Successfully generated video.''), w'))
      else if fn_name fn = ''removeBackground'' then
        (case (if falsy (shapeIdForEditing ctx) then None else shapeIdForEditing ctx) of
           None \<Rightarrow> (Inr (ToolError (''Select an image and click ''
                 @ [CHR 0xE2, CHR 0x80, CHR 0x9C]
                 @ ''Use in Chat''
                 @ [CHR 0xE2, CHR 0x80, CHR 0x9D]
                 @ '' or select base image.'')), w)
         | Some sid \<Rightarrow>
             (case runEditImage env
                     ''Remove the background and make it transparent while preserving the main subject.''
                     sid w of
                (Inl e, w') \<Rightarrow> (Inl e, w')
              | (Inr u, w') \<Rightarrow> (Inr (ToolOutput ''Background removed.''), w')))
      else if fn_name fn = ''applyOverlay'' then
        (case applyOverlay_targets args ctx of
           (baseId, overlayId) \<Rightarrow>
             if falsy baseId \<or> falsy overlayId
             then (Inr (ToolError
                     ''Provide base/overlay or select base and use an assistant image as overlay.''), w)
             else
               (case bakeOverlayBetweenShapes (browser env) (doc w)
                       (or_default baseId []) (or_default overlayId []) of
                  (Inl e, d') \<Rightarrow> (Inl e, w\<lparr>doc := d'\<rparr>)
                | (Inr u, d') \<Rightarrow> (Inr (ToolOutput ''Overlay applied (flattened).''), w\<lparr>doc := d'\<rparr>)))
      else if fn_name fn = ''composeAI'' then
        (case composeAI_targets args ctx of
           (baseId, overlayId) \<Rightarrow>
             if falsy baseId \<or> falsy overlayId
             then (Inr (ToolError
                     ''Provide base/overlay or select base and use an assistant image as overlay.''), w)
             else
               (case getShape (doc w) (or_default baseId []) of
                  None \<Rightarrow> (Inr (ToolError ''Either base or overlay is not an image.''), w)
                | Some baseShape \<Rightarrow>
                    (case getShape (doc w) (or_default overlayId []) of
                       None \<Rightarrow> (Inr (ToolError ''Either base or overlay is not an image.''), w)
                     | Some overlayShape \<Rightarrow>
                         (case composeFlow env (or_default baseId []) (or_default overlayId [])
                                 (shape_assetId baseShape) (arg_prompt args) w of
                            (Inl e, w') \<Rightarrow> (Inl e, w')
                          | (Inr u, w') \<Rightarrow> (Inr (ToolOutput ''Overlay composed with AI.''), w')))))
      else if fn_name fn = ''upscaleImage'' then
        (case (if falsy (shapeIdForEditing ctx) then None else shapeIdForEditing ctx) of
           None \<Rightarrow> (Inr (ToolError ''Select an image to upscale.''), w)
         | Some sid \<Rightarrow>
             (case runEditImage env
                     (''Upscale by '' @ numToString env (or_default (arg_factor args) 2)
                        @ ''x while preserving details and sharpness.'')
                     sid w of
                (Inl e, w') \<Rightarrow> (Inl e, w')
              | (Inr u, w') \<Rightarrow> (Inr (ToolOutput ''Image upscaled.''), w')))
      else if fn_name fn = ''plan'' then
        (Inr (ToolOutput (''Plan acknowledged: '' @ join '' -> '' (or_default (arg_steps args) []))), w)
      else (Inl (Error (''Unknown tool '' @ fn_name fn)), w))"

definition no_image_toast :: toast where
  "no_image_toast =
     \<lparr>toast_title = ''Nenhuma imagem gerada'',
      toast_description = Some (''Tente pedir mudan''
          @ [CHR 0xC3, CHR 0xA7]
          @ ''as de pose, ''
          @ [CHR 0xC3, CHR 0xA2]
          @ ''ngulo de c''
          @ [CHR 0xC3, CHR 0xA2]
          @ ''mera, ilumina''
          @ [CHR 0xC3, CHR 0xA7, CHR 0xC3, CHR 0xA3]
          @ ''o e fundo. Evite reproduzir a cena exatamente.''),
      toast_severity = ''info''\<rparr>"

text \<open>The handler with the \<^verbatim>\<open>catch\<close> of the loop: an exception becomes an error result.\<close>

definition tool_step ::
  "tools_env \<Rightarrow> tool_context \<Rightarrow> fn_call \<Rightarrow> workspace \<Rightarrow> tool_result \<times> workspace" where
  "tool_step env ctx fn w =
     (case run_tool env ctx fn w of
        (Inr result, w') \<Rightarrow> (result, w')
      | (Inl e, w') \<Rightarrow>
          if no_images_error (error_text e)
          then (ToolError (''O modelo n''
                 @ [CHR 0xC3, CHR 0xA3]
                 @ ''o retornou imagem. Experimente detalhar ''
                 @ [CHR 0xC3, CHR 0xA2]
                 @ ''ngulo/ilumina''
                 @ [CHR 0xC3, CHR 0xA7, CHR 0xC3, CHR 0xA3]
                 @ ''o/composi''
                 @ [CHR 0xC3, CHR 0xA7, CHR 0xC3, CHR 0xA3]
                 @ ''o e variar pose e fundo.''), addToast no_image_toast w')
          else (ToolError (error_text e), w'))"

subsection \<open>The loop and the submission\<close>

text \<open>\<^verbatim>\<open>response.candidates[0].content.parts[0]\<close>, a \<open>TypeError\<close> when one of them is missing.\<close>

definition first_part :: "response \<Rightarrow> js_error + part" where
  "first_part response =
     (case resp_candidates response of
        [] \<Rightarrow> Inl (TypeError (''Cannot read properties of undefined (reading ''
            @ [CHR 0x27]
            @ ''content''
            @ [CHR 0x27]
            @ '')''))
      | None # _ \<Rightarrow> Inl (TypeError (''Cannot read properties of undefined (reading ''
            @ [CHR 0x27]
            @ ''parts''
            @ [CHR 0x27]
            @ '')''))
      | Some c # _ \<Rightarrow>
          (case parts c of
             [] \<Rightarrow> Inl (TypeError (''Cannot read properties of undefined (reading ''
            @ [CHR 0x27]
            @ ''functionCall''
            @ [CHR 0x27]
            @ '')''))
           | p # _ \<Rightarrow> Inr p))"

text \<open>
  \<^verbatim>\<open>while (response.candidates[0].content.parts[0].functionCall)\<close>. The fuel bounds the number
  of tool calls. The result is the state reached together with \<open>Some\<close> outcome when the loop
  has ended, by an exception or with the content of the final response, and with \<open>None\<close>
  when the model still asks for a tool after that many calls. The function responses go to
  the chat the submission started with.
\<close>

fun tool_loop ::
  "tools_env \<Rightarrow> nat \<Rightarrow> tool_context \<Rightarrow> nat \<Rightarrow> response \<Rightarrow> ui_state
     \<Rightarrow> (js_error + content) option \<times> ui_state" where
  "tool_loop env fuel ctx c response st =
     (case first_part response of
        Inl e \<Rightarrow> (Some (Inl e), st)
      | Inr (FunctionCall fn) \<Rightarrow>
          (case fuel of
             0 \<Rightarrow> (None, st)
           | Suc f \<Rightarrow>
               (case tool_step env ctx fn (ws st) of
                  (result, w') \<Rightarrow>
                    (case sendMessage env c [FunctionResponse (fn_name fn) result] (st\<lparr>ws := w'\<rparr>) of
                       (Inl e, st') \<Rightarrow> (Some (Inl e), st')
                     | (Inr response', st') \<Rightarrow> tool_loop env f ctx c response' st')))
      | Inr _ \<Rightarrow>
          (case resp_candidates response of
             Some content # _ \<Rightarrow> (Some (Inr content), st)
           | _ \<Rightarrow> (Some (Inl (TypeError (''Cannot read properties of undefined (reading ''
            @ [CHR 0x27]
            @ ''content''
            @ [CHR 0x27]
            @ '')''))), st)))"

definition user_parts :: "string \<Rightarrow> chat_image option \<Rightarrow> part list" where
  "user_parts prompt attachedImage =
     Text prompt #
     (case attachedImage of
        None \<Rightarrow> []
      | Some i \<Rightarrow> (case match_data_url (img_src i) of
                     None \<Rightarrow> []
                   | Some (mimeType, d) \<Rightarrow> [InlineData mimeType d]))"

definition user_turn :: "string \<Rightarrow> chat_image option \<Rightarrow> content" where
  "user_turn prompt attachedImage = \<lparr>role = ''user'', parts = user_parts prompt attachedImage\<rparr>"

text \<open>
  The state when the first message is about to be sent: the last chat image replaced by the
  attached one, the session's chat or a new Pro chat, and the user turn appended to the
  transcript.
\<close>

definition submit_start :: "string \<Rightarrow> chat_image option \<Rightarrow> ui_state \<Rightarrow> nat \<times> ui_state" where
  "submit_start prompt attachedImage st =
     (let st1 = (case attachedImage of None \<Rightarrow> st | Some i \<Rightarrow> st\<lparr>lastAssistantImageInChat := Some i\<rparr>);
          (c, st2) = (case chatSession st of
                        Some c \<Rightarrow> (c, st1)
                      | None \<Rightarrow> (case chats_create GEMINI_MODEL_NAME st1 of
                                  (c, s) \<Rightarrow> (c, s\<lparr>chatSession := Some c\<rparr>)))
      in (c, st2\<lparr>chatHistory := chatHistory st2 @ [user_turn prompt attachedImage]\<rparr>))"

text \<open>
  A submission: the outcome, \<open>None\<close> while the loop is still running when the fuel is used
  up, and the state reached.
\<close>

definition handleAssistantSubmit ::
  "tools_env \<Rightarrow> nat \<Rightarrow> string \<Rightarrow> chat_image option \<Rightarrow> ui_state
     \<Rightarrow> (js_error + unit) option \<times> ui_state" where
  "handleAssistantSubmit env fuel prompt attachedImage st =
     (case submit_start prompt attachedImage st of
        (c, st3) \<Rightarrow>
          (case first_response env c (user_parts prompt attachedImage) st3 of
             (Inl err, st4) \<Rightarrow> (Some (Inl err), st4)
           | (Inr response, st4) \<Rightarrow>
               (case tool_loop env fuel (tool_context_of attachedImage (lastAssistantImageInChat st))
                       c response st4 of
                  (None, st5) \<Rightarrow> (None, st5)
                | (Some (Inl e), st5) \<Rightarrow> (Some (Inl e), st5)
                | (Some (Inr content), st5) \<Rightarrow>
                    (Some (Inr ()), st5\<lparr>chatHistory := chatHistory st5 @ [content]\<rparr>))))"

subsection \<open>What a submission does to the transcript\<close>

lemma sendMessage_frame:
  assumes "sendMessage env c message st = (r, st')"
  shows "chatHistory st' = chatHistory st \<and> ws st' = ws st
       \<and> lastAssistantImageInChat st' = lastAssistantImageInChat st
       \<and> chatSession st' = chatSession st \<and> next_chat st' = next_chat st"
  using assms by (auto simp: sendMessage_def Let_def split: option.splits)

lemma sendMessage_from_llm:
  assumes "sendMessage env c message st = (Inr response, st')"
  shows "\<exists>ch. llm env ch = Inr response"
  using assms by (auto simp: sendMessage_def Let_def split: option.splits)

definition flash_chat :: "part list \<Rightarrow> chat" where
  "flash_chat userParts =
     \<lparr>chat_model = ''gemini-2.5-flash'', chat_tools = toolDeclarations,
      chat_systemInstruction = SYSTEM_INSTRUCTION, chat_sent = [userParts]\<rparr>"

lemma first_response_transient:
  assumes "sendMessage env c userParts st = (Inl err, st1)" "transient_error (error_text err)"
  shows "\<exists>st2. first_response env c userParts st = (llm env (flash_chat userParts), st2)
             \<and> toasts (ws st2) = toasts (ws st) @ [pro_unavailable_toast]
             \<and> chatSession st2 = Some (next_chat st)
             \<and> chats st2 (next_chat st) = Some (flash_chat userParts)
             \<and> chatHistory st2 = chatHistory st \<and> doc (ws st2) = doc (ws st)"
  using assms sendMessage_frame [OF assms(1)]
  by (auto simp: first_response_def chats_create_def sendMessage_def Let_def addToast_def
        flash_chat_def split: option.splits)

lemma first_response_history:
  assumes "first_response env c userParts st = (r, st')"
  shows "chatHistory st' = chatHistory st"
proof (cases "sendMessage env c userParts st")
  case (Pair r1 st1)
  note s1 = sendMessage_frame [OF Pair]
  show ?thesis
  proof (cases r1)
    case (Inr response)
    with Pair assms s1 show ?thesis by (simp add: first_response_def)
  next
    case (Inl err)
    show ?thesis
    proof (cases "transient_error (error_text err)")
      case False
      with Pair Inl assms s1 show ?thesis by (simp add: first_response_def)
    next
      case True
      from first_response_transient [OF Pair [unfolded Inl] True] assms show ?thesis by auto
    qed
  qed
qed

lemma first_response_from_llm:
  assumes "first_response env c userParts st = (Inr response, st')"
  shows "\<exists>ch. llm env ch = Inr response"
  using assms sendMessage_from_llm [of env]
  by (auto simp: first_response_def Let_def split: prod.splits sum.splits if_splits)

declare tool_loop.simps [simp del]

lemma tool_loop_history:
  "tool_loop env fuel ctx c response st = (r, st') \<Longrightarrow> chatHistory st' = chatHistory st"
proof (induction fuel arbitrary: response st)
  case 0
  then show ?case
    by (subst (asm) tool_loop.simps) (auto split: sum.splits part.splits list.splits option.splits)
next
  case (Suc f)
  show ?case
  proof (cases "first_part response")
    case (Inl e)
    with Suc.prems show ?thesis by (subst (asm) tool_loop.simps) auto
  next
    case (Inr p)
    show ?thesis
    proof (cases "\<exists>fn. p = FunctionCall fn")
      case False
      with Inr Suc.prems show ?thesis
        by (subst (asm) tool_loop.simps) (auto split: part.splits list.splits option.splits)
    next
      case True
      then obtain fn where fn: "p = FunctionCall fn" by blast
      obtain result w' where ts: "tool_step env ctx fn (ws st) = (result, w')"
        by (cases "tool_step env ctx fn (ws st)") auto
      obtain r1 st1 where sm:
        "sendMessage env c [FunctionResponse (fn_name fn) result] (st\<lparr>ws := w'\<rparr>) = (r1, st1)"
        by (cases "sendMessage env c [FunctionResponse (fn_name fn) result] (st\<lparr>ws := w'\<rparr>)") auto
      from sendMessage_frame [OF sm] have h1: "chatHistory st1 = chatHistory st" by simp
      show ?thesis
      proof (cases r1)
        case (Inl e)
        with Inr fn ts sm Suc.prems h1 show ?thesis
          by (subst (asm) tool_loop.simps) auto
      next
        case (Inr response')
        with \<open>first_part response = Inr p\<close> fn ts sm Suc.prems
        have "tool_loop env f ctx c response' st1 = (r, st')"
          by (subst (asm) tool_loop.simps) simp
        from Suc.IH [OF this] h1 show ?thesis by simp
      qed
    qed
  qed
qed

lemma tool_loop_final:
  "tool_loop env fuel ctx c response st = (Some (Inr final), st') \<Longrightarrow>
     (\<exists>p ps. parts final = p # ps \<and> (\<forall>fn. p \<noteq> FunctionCall fn))
     \<and> ((\<exists>rest. resp_candidates response = Some final # rest)
        \<or> (\<exists>ch resp rest. llm env ch = Inr resp \<and> resp_candidates resp = Some final # rest))"
proof (induction fuel arbitrary: response st)
  case 0
  then show ?case
    by (subst (asm) tool_loop.simps)
       (auto simp: first_part_def split: sum.splits part.splits list.splits option.splits)
next
  case (Suc f)
  show ?case
  proof (cases "first_part response")
    case (Inl e)
    with Suc.prems show ?thesis by (subst (asm) tool_loop.simps) simp
  next
    case (Inr p)
    show ?thesis
    proof (cases "\<exists>fn. p = FunctionCall fn")
      case False
      with Inr Suc.prems show ?thesis
        by (subst (asm) tool_loop.simps)
           (auto simp: first_part_def split: part.splits list.splits option.splits)
    next
      case True
      then obtain fn where fn: "p = FunctionCall fn" by blast
      obtain result w' where ts: "tool_step env ctx fn (ws st) = (result, w')"
        by (cases "tool_step env ctx fn (ws st)") auto
      obtain r1 st1 where sm:
        "sendMessage env c [FunctionResponse (fn_name fn) result] (st\<lparr>ws := w'\<rparr>) = (r1, st1)"
        by (cases "sendMessage env c [FunctionResponse (fn_name fn) result] (st\<lparr>ws := w'\<rparr>)") auto
      show ?thesis
      proof (cases r1)
        case (Inl e)
        with Inr fn ts sm Suc.prems show ?thesis
          by (subst (asm) tool_loop.simps) simp
      next
        case (Inr response')
        with \<open>first_part response = Inr p\<close> fn ts sm Suc.prems
        have "tool_loop env f ctx c response' st1 = (Some (Inr final), st')"
          by (subst (asm) tool_loop.simps) simp
        from Suc.IH [OF this] sendMessage_from_llm [OF sm [unfolded Inr]]
        show ?thesis by blast
      qed
    qed
  qed
qed

lemma tool_loop_session:
  "tool_loop env fuel ctx c response st = (r, st') \<Longrightarrow> chatSession st' = chatSession st"
proof (induction fuel arbitrary: response st)
  case 0
  then show ?case
    by (subst (asm) tool_loop.simps) (auto split: sum.splits part.splits list.splits option.splits)
next
  case (Suc f)
  show ?case
  proof (cases "first_part response")
    case (Inl e)
    with Suc.prems show ?thesis by (subst (asm) tool_loop.simps) auto
  next
    case (Inr p)
    show ?thesis
    proof (cases "\<exists>fn. p = FunctionCall fn")
      case False
      with Inr Suc.prems show ?thesis
        by (subst (asm) tool_loop.simps) (auto split: part.splits list.splits option.splits)
    next
      case True
      then obtain fn where fn: "p = FunctionCall fn" by blast
      obtain result w' where ts: "tool_step env ctx fn (ws st) = (result, w')"
        by (cases "tool_step env ctx fn (ws st)") auto
      obtain r1 st1 where sm:
        "sendMessage env c [FunctionResponse (fn_name fn) result] (st\<lparr>ws := w'\<rparr>) = (r1, st1)"
        by (cases "sendMessage env c [FunctionResponse (fn_name fn) result] (st\<lparr>ws := w'\<rparr>)") auto
      from sendMessage_frame [OF sm] have h1: "chatSession st1 = chatSession st" by simp
      show ?thesis
      proof (cases r1)
        case (Inl e)
        with Inr fn ts sm Suc.prems h1 show ?thesis
          by (subst (asm) tool_loop.simps) auto
      next
        case (Inr response')
        with \<open>first_part response = Inr p\<close> fn ts sm Suc.prems
        have "tool_loop env f ctx c response' st1 = (r, st')"
          by (subst (asm) tool_loop.simps) simp
        from Suc.IH [OF this] h1 show ?thesis by simp
      qed
    qed
  qed
qed

lemma tool_loop_final_answer:
  assumes "resp_candidates response = Some content # rest" "parts content = p # ps"
      and "\<forall>fn. p \<noteq> FunctionCall fn"
  shows "tool_loop env fuel ctx c response st = (Some (Inr content), st)"
  using assms
  by (subst tool_loop.simps) (auto simp: first_part_def split: part.splits)

lemma submit_start_history:
  "submit_start prompt attachedImage st = (c, st3) \<Longrightarrow>
     chatHistory st3 = chatHistory st @ [user_turn prompt attachedImage]"
  by (auto simp: submit_start_def chats_create_def Let_def split: option.splits prod.splits)

lemma handleAssistantSubmit_history:
  assumes "handleAssistantSubmit env fuel prompt attachedImage st = (r, st')"
  shows "(r \<noteq> Some (Inr ()) \<and> chatHistory st' = chatHistory st @ [user_turn prompt attachedImage])
       \<or> (r = Some (Inr ()) \<and>
           (\<exists>final p ps ch resp rest.
               chatHistory st' = chatHistory st @ [user_turn prompt attachedImage, final]
             \<and> parts final = p # ps \<and> (\<forall>fn. p \<noteq> FunctionCall fn)
             \<and> llm env ch = Inr resp \<and> resp_candidates resp = Some final # rest))"
proof -
  obtain c st3 where ss: "submit_start prompt attachedImage st = (c, st3)"
    by (cases "submit_start prompt attachedImage st") auto
  note h3 = submit_start_history [OF ss]
  obtain r4 st4 where fr: "first_response env c (user_parts prompt attachedImage) st3 = (r4, st4)"
    by (cases "first_response env c (user_parts prompt attachedImage) st3") auto
  note h4 = first_response_history [OF fr]
  show ?thesis
  proof (cases r4)
    case (Inl err)
    with assms ss fr have "r = Some (Inl err)" "st' = st4"
      by (auto simp: handleAssistantSubmit_def)
    with h3 h4 show ?thesis by simp
  next
    case (Inr response)
    from first_response_from_llm [OF fr [unfolded Inr]] obtain ch0 where
      ch0: "llm env ch0 = Inr response" by blast
    let ?ctx = "tool_context_of attachedImage (lastAssistantImageInChat st)"
    obtain r5 st5 where tl: "tool_loop env fuel ?ctx c response st4 = (r5, st5)"
      by (cases "tool_loop env fuel ?ctx c response st4") auto
    note h5 = tool_loop_history [OF tl]
    show ?thesis
    proof (cases r5)
      case None
      with assms ss fr Inr tl have "r = None" "st' = st5"
        by (auto simp: handleAssistantSubmit_def)
      with h3 h4 h5 show ?thesis by simp
    next
      case (Some out)
      show ?thesis
      proof (cases out)
        case (Inl e)
        with assms ss fr \<open>r4 = Inr response\<close> tl Some have "r = Some (Inl e)" "st' = st5"
          by (auto simp: handleAssistantSubmit_def)
        with h3 h4 h5 show ?thesis by simp
      next
        case (Inr final)
        with assms ss fr \<open>r4 = Inr response\<close> tl Some
        have r: "r = Some (Inr ())" "st' = st5\<lparr>chatHistory := chatHistory st5 @ [final]\<rparr>"
          by (auto simp: handleAssistantSubmit_def)
        from tool_loop_final [OF tl [unfolded Some Inr]] ch0
        obtain p ps ch resp rest where "parts final = p # ps" "\<forall>fn. p \<noteq> FunctionCall fn"
          "llm env ch = Inr resp" "resp_candidates resp = Some final # rest" by blast
        with r h3 h4 h5 show ?thesis by auto
      qed
    qed
  qed
qed

subsection \<open>Concrete documents, models and runs\<close>

definition idle_flow :: "workspace \<Rightarrow> (js_error + unit) \<times> workspace" where
  "idle_flow w = (Inr (), w)"

definition no_args :: fn_args where
  "no_args =
     \<lparr>arg_prompt = None, arg_numberOfImages = None, arg_aspectRatio = None,
      arg_variationStrength = None, arg_stylePreset = None, arg_negativePrompt = None,
      arg_seed = None, arg_baseShapeId = None, arg_overlayShapeId = None, arg_factor = None,
      arg_steps = None\<rparr>"

definition plan_call :: fn_call where
  "plan_call = \<lparr>fn_name = ''plan'', fn_args = no_args\<lparr>arg_steps := Some [''think'', ''draw'']\<rparr>\<rparr>"

definition editImage_call :: fn_call where
  "editImage_call = \<lparr>fn_name = ''editImage'', fn_args = no_args\<lparr>arg_prompt := Some ''add a hat''\<rparr>\<rparr>"

definition applyOverlay_call :: fn_call where
  "applyOverlay_call = \<lparr>fn_name = ''applyOverlay'', fn_args = no_args\<rparr>"

definition model_reply :: "part list \<Rightarrow> js_error + response" where
  "model_reply ps = Inr \<lparr>resp_candidates = [Some \<lparr>role = ''model'', parts = ps\<rparr>]\<rparr>"

text \<open>
  A model that first asks for the \<open>plan\<close> tool and then answers with a text part followed by
  another function call; a model whose Pro tier throws an internal error; a model that
  rejects the key.
\<close>

definition demo_tools :: tools_env where
  "demo_tools =
     \<lparr>browser = demo_browser,
      llm = (\<lambda>ch. if length (chat_sent ch) = 1
                   then model_reply [FunctionCall plan_call]
                   else model_reply [Text ''Next I will draw.'', FunctionCall plan_call]),
      numToString = (\<lambda>n. ''2''),
      genImageFlow = (\<lambda>p n a. idle_flow),
      generateNewVideo = (\<lambda>p i a. idle_flow),
      runEditImage = (\<lambda>p s. idle_flow),
      composeFlow = (\<lambda>b ov a p. idle_flow)\<rparr>"

definition outage_tools :: tools_env where
  "outage_tools =
     demo_tools\<lparr>llm := (\<lambda>ch. if chat_model ch = GEMINI_MODEL_NAME
                              then Inl (Error ''500 INTERNAL'')
                              else model_reply [Text ''hello''])\<rparr>"

definition denied_tools :: tools_env where
  "denied_tools = demo_tools\<lparr>llm := (\<lambda>ch. Inl (Error ''API key not valid''))\<rparr>"

definition demo_ws :: workspace where
  "demo_ws = \<lparr>doc = demo_editor, editingImage = None, toasts = []\<rparr>"

definition demo_state :: ui_state where
  "demo_state =
     \<lparr>ws = demo_ws, chatHistory = [], chatSession = None,
      lastAssistantImageInChat = None, chats = Map.empty, next_chat = 0\<rparr>"

definition demo_started :: ui_state where
  "demo_started = snd (submit_start ''hi'' None demo_state)"

definition demo_sent :: ui_state where
  "demo_sent = snd (sendMessage denied_tools 0 [Text ''hi''] demo_started)"

definition poster_state :: ui_state where
  "poster_state = snd (handleAssistantSubmit demo_tools 3 ''make a poster'' None demo_state)"

text \<open>The context of a submission without attachment after the base image was used in chat.\<close>

definition reference_ctx :: tool_context where
  "reference_ctx =
     tool_context_of None
       (Some \<lparr>img_src = ''data:image/png;base64,BASE'', img_shapeId = ''shape:base''\<rparr>)"

definition transcript_of ::
  "(js_error + unit) option \<times> ui_state \<Rightarrow> (js_error + unit) option \<times> content list" where
  "transcript_of run = (fst run, chatHistory (snd run))"

lemma demo_start: "submit_start ''hi'' None demo_state = (0, demo_started)"
  by (simp add: demo_started_def submit_start_def demo_state_def chats_create_def prod_eq_iff)

lemma demo_started_chat:
  "chats demo_started 0 =
     Some \<lparr>chat_model = GEMINI_MODEL_NAME, chat_tools = toolDeclarations,
           chat_systemInstruction = SYSTEM_INSTRUCTION, chat_sent = []\<rparr>"
  by (simp add: demo_started_def submit_start_def demo_state_def chats_create_def)

lemma denied_send:
  "sendMessage denied_tools 0 (user_parts ''hi'' None) demo_started =
     (Inl (Error ''API key not valid''), demo_sent)"
  by (simp add: demo_sent_def sendMessage_def demo_started_chat user_parts_def denied_tools_def
        prod_eq_iff)

lemma outage_send:
  "sendMessage outage_tools 0 (user_parts ''hi'' None) demo_started =
     (Inl (Error ''500 INTERNAL''), demo_sent)"
  by (simp add: demo_sent_def sendMessage_def demo_started_chat user_parts_def denied_tools_def
        outage_tools_def prod_eq_iff)

lemma transient_500: "transient_error (error_text (Error ''500 INTERNAL''))"
  by (simp add: transient_error_def icontains_def lower_def error_text_def Error_def)

lemma not_transient_key: "\<not> transient_error (error_text (Error ''API key not valid''))"
  by (simp add: transient_error_def icontains_def lower_def error_text_def Error_def)

lemma denied_run:
  "handleAssistantSubmit denied_tools 0 ''hi'' None demo_state =
     (Some (Inl (Error ''API key not valid'')), demo_sent)"
  using demo_start denied_send not_transient_key
  by (simp add: handleAssistantSubmit_def first_response_def)

lemma demo_sent_history: "chatHistory demo_sent = [\<lparr>role = ''user'', parts = [Text ''hi'']\<rparr>]"
  using sendMessage_frame [OF denied_send] submit_start_history [OF demo_start]
  by (simp add: demo_state_def user_turn_def user_parts_def)

lemma poster_transcript:
  "transcript_of (handleAssistantSubmit demo_tools 3 ''make a poster'' None demo_state) =
     (Some (Inr ()),
      [\<lparr>role = ''user'', parts = [Text ''make a poster'']\<rparr>,
       \<lparr>role = ''model'', parts = [Text ''Next I will draw.'', FunctionCall plan_call]\<rparr>])"
  by (simp add: transcript_of_def handleAssistantSubmit_def submit_start_def demo_state_def
        chats_create_def first_response_def sendMessage_def user_parts_def user_turn_def
        demo_tools_def model_reply_def tool_loop.simps first_part_def tool_step_def run_tool_def
        plan_call_def tool_context_of_def Let_def numeral_3_eq_3)

lemma poster_run:
  "handleAssistantSubmit demo_tools 3 ''make a poster'' None demo_state = (Some (Inr ()), poster_state)"
  using poster_transcript by (simp add: transcript_of_def poster_state_def prod_eq_iff)

definition outage_state :: ui_state where
  "outage_state = snd (handleAssistantSubmit outage_tools 0 ''hi'' None demo_state)"

lemma outage_run:
  "handleAssistantSubmit outage_tools 0 ''hi'' None demo_state =
     (fst (handleAssistantSubmit outage_tools 0 ''hi'' None demo_state), outage_state)"
  by (simp add: outage_state_def)

lemma demo_started_fresh: "toasts (ws demo_started) = []" "next_chat demo_started = 1"
  by (simp_all add: demo_started_def submit_start_def demo_state_def chats_create_def demo_ws_def)

lemma outage_flash_reply:
  "llm outage_tools (flash_chat (user_parts ''hi'' None)) =
     Inr \<lparr>resp_candidates = [Some \<lparr>role = ''model'', parts = [Text ''hello'']\<rparr>]\<rparr>"
  by (simp add: outage_tools_def flash_chat_def GEMINI_MODEL_NAME_def model_reply_def)

text \<open>
  Claim C1. When the first model call of a submission throws an error whose text matches
  \<^verbatim>\<open>/INTERNAL|code":500|status":\s*500/i\<close>, the orchestrator adds the information toast,
  creates a chat on \<^verbatim>\<open>gemini-2.5-flash\<close> with the same tool declarations and system
  instruction, makes it the session and sends it the same user parts. The submission goes on
  from that state with what the Flash chat gave: its error ends the submission; its response
  enters the tool loop; and when the first part of that response is not a function call the
  submission ends normally in that state with the user turn and that response appended to
  the transcript. Whatever the outcome, the Flash chat is the session afterwards. When the
  error does not match, the submission ends with that very error, in the state the failed
  call left.
\<close>

theorem model_tier_fallback:
  assumes start: "submit_start prompt attachedImage st = (c, st3)"
      and fail: "sendMessage env c (user_parts prompt attachedImage) st3 = (Inl err, st4)"
      and run: "handleAssistantSubmit env fuel prompt attachedImage st = (r, st')"
  shows "(transient_error (error_text err) \<longrightarrow>
            (\<exists>st5. first_response env c (user_parts prompt attachedImage) st3 =
                      (llm env (flash_chat (user_parts prompt attachedImage)), st5)
                  \<and> toasts (ws st5) = toasts (ws st3) @ [pro_unavailable_toast]
                  \<and> chatSession st5 = Some (next_chat st3)
                  \<and> chats st5 (next_chat st3) = Some (flash_chat (user_parts prompt attachedImage))
                  \<and> chatSession st' = Some (next_chat st3)
                  \<and> (\<forall>e. llm env (flash_chat (user_parts prompt attachedImage)) = Inl e \<longrightarrow>
                        r = Some (Inl e) \<and> st' = st5)
                  \<and> (\<forall>response. llm env (flash_chat (user_parts prompt attachedImage)) = Inr response \<longrightarrow>
                        (r, st') =
                          (case tool_loop env fuel
                                  (tool_context_of attachedImage (lastAssistantImageInChat st))
                                  c response st5 of
                             (None, s) \<Rightarrow> (None, s)
                           | (Some (Inl e), s) \<Rightarrow> (Some (Inl e), s)
                           | (Some (Inr content), s) \<Rightarrow>
                               (Some (Inr ()), s\<lparr>chatHistory := chatHistory s @ [content]\<rparr>)))
                  \<and> (\<forall>content rest p ps.
                        llm env (flash_chat (user_parts prompt attachedImage)) =
                          Inr \<lparr>resp_candidates = Some content # rest\<rparr>
                        \<and> parts content = p # ps \<and> (\<forall>fn. p \<noteq> FunctionCall fn) \<longrightarrow>
                        r = Some (Inr ())
                        \<and> st' = st5\<lparr>chatHistory :=
                                    chatHistory st @ [user_turn prompt attachedImage, content]\<rparr>)))
       \<and> (\<not> transient_error (error_text err) \<longrightarrow> r = Some (Inl err) \<and> st' = st4)"
proof (rule conjI; rule impI)
  assume t: "transient_error (error_text err)"
  let ?flash = "flash_chat (user_parts prompt attachedImage)"
  let ?ctx = "tool_context_of attachedImage (lastAssistantImageInChat st)"
  from first_response_transient [OF fail t] obtain st5 where
    f: "first_response env c (user_parts prompt attachedImage) st3 = (llm env ?flash, st5)"
       "toasts (ws st5) = toasts (ws st3) @ [pro_unavailable_toast]"
       "chatSession st5 = Some (next_chat st3)"
       "chats st5 (next_chat st3) = Some ?flash"
       "chatHistory st5 = chatHistory st3"
    by blast
  have e: "\<forall>e. llm env ?flash = Inl e \<longrightarrow> r = Some (Inl e) \<and> st' = st5"
    using start f(1) run by (auto simp: handleAssistantSubmit_def)
  have l: "\<forall>response. llm env ?flash = Inr response \<longrightarrow>
             (r, st') =
               (case tool_loop env fuel ?ctx c response st5 of
                  (None, s) \<Rightarrow> (None, s)
                | (Some (Inl e), s) \<Rightarrow> (Some (Inl e), s)
                | (Some (Inr content), s) \<Rightarrow>
                    (Some (Inr ()), s\<lparr>chatHistory := chatHistory s @ [content]\<rparr>))"
    using start f(1) run
    by (auto simp: handleAssistantSubmit_def split: prod.splits option.splits sum.splits)
  have a: "\<forall>content rest p ps.
             llm env ?flash = Inr \<lparr>resp_candidates = Some content # rest\<rparr>
             \<and> parts content = p # ps \<and> (\<forall>fn. p \<noteq> FunctionCall fn) \<longrightarrow>
             r = Some (Inr ())
             \<and> st' = st5\<lparr>chatHistory := chatHistory st @ [user_turn prompt attachedImage, content]\<rparr>"
  proof (intro allI impI)
    fix content rest p ps
    assume h: "llm env ?flash = Inr \<lparr>resp_candidates = Some content # rest\<rparr>
               \<and> parts content = p # ps \<and> (\<forall>fn. p \<noteq> FunctionCall fn)"
    then have "tool_loop env fuel ?ctx c \<lparr>resp_candidates = Some content # rest\<rparr> st5
                 = (Some (Inr content), st5)"
      by (intro tool_loop_final_answer [of _ content rest p ps]) simp_all
    with l h have "(r, st') = (Some (Inr ()), st5\<lparr>chatHistory := chatHistory st5 @ [content]\<rparr>)"
      by simp
    then show "r = Some (Inr ())
             \<and> st' = st5\<lparr>chatHistory := chatHistory st @ [user_turn prompt attachedImage, content]\<rparr>"
      using f(5) submit_start_history [OF start] by simp
  qed
  have s: "chatSession st' = Some (next_chat st3)"
  proof (cases "llm env ?flash")
    case (Inl e)
    with e f(3) show ?thesis by simp
  next
    case (Inr response)
    obtain r5 s5 where tl: "tool_loop env fuel ?ctx c response st5 = (r5, s5)"
      by (cases "tool_loop env fuel ?ctx c response st5") auto
    from tool_loop_session [OF tl] f(3) have "chatSession s5 = Some (next_chat st3)" by simp
    with l Inr tl show ?thesis by (auto split: option.splits sum.splits)
  qed
  show "\<exists>st5. first_response env c (user_parts prompt attachedImage) st3 =
                      (llm env (flash_chat (user_parts prompt attachedImage)), st5)
                  \<and> toasts (ws st5) = toasts (ws st3) @ [pro_unavailable_toast]
                  \<and> chatSession st5 = Some (next_chat st3)
                  \<and> chats st5 (next_chat st3) = Some (flash_chat (user_parts prompt attachedImage))
                  \<and> chatSession st' = Some (next_chat st3)
                  \<and> (\<forall>e. llm env (flash_chat (user_parts prompt attachedImage)) = Inl e \<longrightarrow>
                        r = Some (Inl e) \<and> st' = st5)
                  \<and> (\<forall>response. llm env (flash_chat (user_parts prompt attachedImage)) = Inr response \<longrightarrow>
                        (r, st') =
                          (case tool_loop env fuel
                                  (tool_context_of attachedImage (lastAssistantImageInChat st))
                                  c response st5 of
                             (None, s) \<Rightarrow> (None, s)
                           | (Some (Inl e), s) \<Rightarrow> (Some (Inl e), s)
                           | (Some (Inr content), s) \<Rightarrow>
                               (Some (Inr ()), s\<lparr>chatHistory := chatHistory s @ [content]\<rparr>)))
                  \<and> (\<forall>content rest p ps.
                        llm env (flash_chat (user_parts prompt attachedImage)) =
                          Inr \<lparr>resp_candidates = Some content # rest\<rparr>
                        \<and> parts content = p # ps \<and> (\<forall>fn. p \<noteq> FunctionCall fn) \<longrightarrow>
                        r = Some (Inr ())
                        \<and> st' = st5\<lparr>chatHistory :=
                                    chatHistory st @ [user_turn prompt attachedImage, content]\<rparr>)"
    using f(1-4) s e l a by (intro exI [of _ st5]) blast
next
  assume "\<not> transient_error (error_text err)"
  then show "r = Some (Inl err) \<and> st' = st4"
    using start fail run by (simp add: handleAssistantSubmit_def first_response_def)
qed


theorem model_tier_fallback_witness:
  "submit_start ''hi'' None demo_state = (0, demo_started)
   \<and> sendMessage outage_tools 0 (user_parts ''hi'' None) demo_started =
       (Inl (Error ''500 INTERNAL''), demo_sent)
   \<and> transient_error (error_text (Error ''500 INTERNAL''))
   \<and> handleAssistantSubmit outage_tools 0 ''hi'' None demo_state = (Some (Inr ()), outage_state)
   \<and> toasts (ws outage_state) = [pro_unavailable_toast]
   \<and> chatSession outage_state = Some 1
   \<and> chats outage_state 1 = Some (flash_chat [Text ''hi''])
   \<and> chatHistory outage_state =
       [\<lparr>role = ''user'', parts = [Text ''hi'']\<rparr>, \<lparr>role = ''model'', parts = [Text ''hello'']\<rparr>]
   \<and> sendMessage denied_tools 0 (user_parts ''hi'' None) demo_started =
       (Inl (Error ''API key not valid''), demo_sent)
   \<and> \<not> transient_error (error_text (Error ''API key not valid''))
   \<and> handleAssistantSubmit denied_tools 0 ''hi'' None demo_state =
       (Some (Inl (Error ''API key not valid'')), demo_sent)"
proof -
  from model_tier_fallback [OF demo_start outage_send outage_run] transient_500
  obtain st5 where
    t: "toasts (ws st5) = toasts (ws demo_started) @ [pro_unavailable_toast]"
       "chatSession st5 = Some (next_chat demo_started)"
       "chats st5 (next_chat demo_started) = Some (flash_chat (user_parts ''hi'' None))"
    and a: "\<forall>content rest p ps.
              llm outage_tools (flash_chat (user_parts ''hi'' None)) =
                Inr \<lparr>resp_candidates = Some content # rest\<rparr>
              \<and> parts content = p # ps \<and> (\<forall>fn. p \<noteq> FunctionCall fn) \<longrightarrow>
              fst (handleAssistantSubmit outage_tools 0 ''hi'' None demo_state) = Some (Inr ())
              \<and> outage_state = st5\<lparr>chatHistory :=
                   chatHistory demo_state @
                     [user_turn ''hi'' None, content]\<rparr>"
    by blast
  from a outage_flash_reply
  have r: "fst (handleAssistantSubmit outage_tools 0 ''hi'' None demo_state) = Some (Inr ())"
    and s: "outage_state = st5\<lparr>chatHistory :=
              chatHistory demo_state @
                [user_turn ''hi'' None, \<lparr>role = ''model'', parts = [Text ''hello'']\<rparr>]\<rparr>"
    by auto
  have run: "handleAssistantSubmit outage_tools 0 ''hi'' None demo_state = (Some (Inr ()), outage_state)"
    using outage_run r by simp
  have o: "toasts (ws outage_state) = [pro_unavailable_toast]" "chatSession outage_state = Some 1"
    "chats outage_state 1 = Some (flash_chat [Text ''hi''])"
    "chatHistory outage_state =
       [\<lparr>role = ''user'', parts = [Text ''hi'']\<rparr>, \<lparr>role = ''model'', parts = [Text ''hello'']\<rparr>]"
    using t by (simp_all add: s demo_started_fresh demo_state_def user_turn_def user_parts_def)
  show ?thesis
    using run o demo_start outage_send denied_send denied_run transient_500 not_transient_key
      model_tier_fallback [OF demo_start denied_send denied_run]
    by blast
qed

text \<open>
  Claim C5. For \<open>editImage\<close>, \<open>removeBackground\<close>, \<open>upscaleImage\<close>, \<open>applyOverlay\<close> and
  \<open>composeAI\<close>, called without a base shape id in a submission with no attached image and no
  earlier chat image, the handler returns an error result without raising, and the
  workspace (document, mask editor, toasts) is the one before the call.
\<close>

theorem base_image_tools_without_context:
  assumes "fn_name fn \<in> {''editImage'', ''removeBackground'', ''upscaleImage'', ''applyOverlay'',
                          ''composeAI''}"
      and "arg_baseShapeId (fn_args fn) = None"
  shows "\<exists>msg. run_tool env (tool_context_of None None) fn w = (Inr (ToolError msg), w)
             \<and> tool_step env (tool_context_of None None) fn w = (ToolError msg, w)"
  using assms
  by (auto simp: tool_step_def run_tool_def tool_context_of_def falsy_def applyOverlay_targets_def
        composeAI_targets_def Let_def)

theorem base_image_tools_without_context_witness:
  "fn_name editImage_call \<in> {''editImage'', ''removeBackground'', ''upscaleImage'', ''applyOverlay'',
                              ''composeAI''}
   \<and> arg_baseShapeId (fn_args editImage_call) = None
   \<and> snd (tool_step demo_tools (tool_context_of None None) editImage_call demo_ws) = demo_ws
   \<and> fst (run_tool demo_tools (tool_context_of None None) editImage_call demo_ws) =
       Inr (fst (tool_step demo_tools (tool_context_of None None) editImage_call demo_ws))"
proof -
  have a: "fn_name editImage_call \<in> {''editImage'', ''removeBackground'', ''upscaleImage'',
                                      ''applyOverlay'', ''composeAI''}"
    by (simp add: editImage_call_def)
  have b: "arg_baseShapeId (fn_args editImage_call) = None"
    by (simp add: editImage_call_def no_args_def)
  from base_image_tools_without_context [OF a b, of demo_tools demo_ws]
  obtain msg where
    "run_tool demo_tools (tool_context_of None None) editImage_call demo_ws = (Inr (ToolError msg), demo_ws)"
    "tool_step demo_tools (tool_context_of None None) editImage_call demo_ws = (ToolError msg, demo_ws)"
    by blast
  then show ?thesis using a b by simp
qed

text \<open>
  Claim C7 as stated fails in one point: the response appended after the loop may contain a
  function call, since the loop looks at the first part only. Here the model's second
  response is a text part followed by a function call, and it is appended as it is.
\<close>

theorem transcript_final_response_counterexample:
  "transcript_of (handleAssistantSubmit demo_tools 3 ''make a poster'' None demo_state) =
     (Some (Inr ()),
      [\<lparr>role = ''user'', parts = [Text ''make a poster'']\<rparr>,
       \<lparr>role = ''model'', parts = [Text ''Next I will draw.'', FunctionCall plan_call]\<rparr>])"
  using poster_transcript .

text \<open>
  Claim C7, amended. At every point of a submission, ended or still in its loop, the
  transcript is the one before, then the user turn, then at most one model content. That
  content is there exactly when the submission has ended normally; it is the content of a
  response the model gave, and its first part is not a function call. So no response whose
  first part is a function call is ever appended.
\<close>

theorem transcript_gets_user_turn_and_final_response:
  assumes "handleAssistantSubmit env fuel prompt attachedImage st = (r, st')"
  shows "\<exists>appended.
           chatHistory st' = chatHistory st @ [user_turn prompt attachedImage] @ appended
         \<and> (appended = []
            \<or> (\<exists>final p ps ch resp rest.
                  appended = [final] \<and> r = Some (Inr ())
                \<and> parts final = p # ps \<and> (\<forall>fn. p \<noteq> FunctionCall fn)
                \<and> llm env ch = Inr resp \<and> resp_candidates resp = Some final # rest))
         \<and> (r = Some (Inr ()) \<longrightarrow> appended \<noteq> [])"
  using handleAssistantSubmit_history [OF assms] by auto

theorem transcript_gets_user_turn_and_final_response_witness:
  "handleAssistantSubmit demo_tools 3 ''make a poster'' None demo_state = (Some (Inr ()), poster_state)
   \<and> length (chatHistory poster_state) = length (chatHistory demo_state) + 2"
proof -
  from transcript_gets_user_turn_and_final_response [OF poster_run]
  have "length (chatHistory poster_state) = length (chatHistory demo_state) + 2" by auto
  then show ?thesis using poster_run by simp
qed

text \<open>
  Claim C8, evaluated where it fails. The base image was used in chat earlier and the
  current message attaches nothing. Called without shape ids, \<open>editImage\<close> takes no overlay,
  since the last chat image is its target; \<open>applyOverlay\<close> and \<open>composeAI\<close> resolve the
  overlay to that same shape. \<open>applyOverlay\<close> then bakes the base onto itself, reports
  success and deletes the base shape.
\<close>

theorem overlay_defaults_to_the_base:
  "shapeIdForEditing reference_ctx = Some ''shape:base''
   \<and> editImage_overlaySrc reference_ctx = None
   \<and> applyOverlay_targets no_args reference_ctx = (Some ''shape:base'', Some ''shape:base'')
   \<and> composeAI_targets no_args reference_ctx = (Some ''shape:base'', Some ''shape:base'')
   \<and> fst (tool_step demo_tools reference_ctx applyOverlay_call demo_ws)
       = ToolOutput ''Overlay applied (flattened).''
   \<and> getShape demo_editor ''shape:base'' \<noteq> None
   \<and> getShape (doc (snd (tool_step demo_tools reference_ctx applyOverlay_call demo_ws)))
        ''shape:base'' = None"
  by (simp add: reference_ctx_def tool_context_of_def applyOverlay_targets_def composeAI_targets_def
        editImage_overlaySrc_def no_args_def falsy_def tool_step_def run_tool_def applyOverlay_call_def
        demo_tools_def demo_ws_def or_default_def bakeOverlayBetweenShapes_def demo_browser_def
        demo_editor_def getShape_def getAsset_def select_def deleteShapes_def updateAssets_def
        unlocked_def)

text \<open>
  Claim C9 as stated fails: when the model rejects the request with an error that is not
  transient, the submission ends with that error and the user turn of the request is in the
  transcript.
\<close>

theorem failed_submission_counterexample:
  "transcript_of (handleAssistantSubmit denied_tools 0 ''hi'' None demo_state) =
     (Some (Inl (Error ''API key not valid'')), [\<lparr>role = ''user'', parts = [Text ''hi'']\<rparr>])"
  by (simp add: denied_run transcript_of_def demo_sent_history)

text \<open>
  Claim C9, amended. A submission that ends with an error, from the first model call, from
  the fallback call or from a later call of the loop, leaves the transcript as it was with
  the user turn of that request appended, and no model turn.
\<close>

theorem failed_submission_keeps_user_turn:
  assumes "handleAssistantSubmit env fuel prompt attachedImage st = (Some (Inl e), st')"
  shows "chatHistory st' = chatHistory st @ [user_turn prompt attachedImage]
       \<and> role (user_turn prompt attachedImage) = ''user''"
  using handleAssistantSubmit_history [OF assms] by (auto simp: user_turn_def)

theorem failed_submission_keeps_user_turn_witness:
  "handleAssistantSubmit denied_tools 0 ''hi'' None demo_state =
     (Some (Inl (Error ''API key not valid'')), demo_sent)
   \<and> chatHistory demo_sent = chatHistory demo_state @ [user_turn ''hi'' None]"
  using failed_submission_keeps_user_turn [OF denied_run] denied_run by simp

end
